theory Spec2Isabelle
  imports Main "HOL-Library.Word"
begin

section \<open>Data model of main.c\<close>

text \<open>
  The C integers are 32 bits wide: \<open>int32_t\<close> and \<open>uint32_t\<close> are both \<open>32 word\<close>;
  addition and subtraction wrap around, \<open><\<close> and \<open>div\<close> are the unsigned comparison
  and division, a signed comparison is \<open><s\<close> or \<open>\<le>s\<close>, \<open>sint\<close> reads an \<open>int32_t\<close>
  and \<open>uint\<close> a \<open>uint32_t\<close>.  A mixed expression such as \<open>desk->x + desk->width\<close> is
  computed in \<open>uint32_t\<close> and stored back into an \<open>int32_t\<close>, which on the two's
  complement targets of the program is the same word.  The program is built for
  Windows, where \<open>long\<close> and \<open>unsigned long\<close> have 32 bits too.
\<close>

type_synonym i32 = "32 word"
type_synonym u32 = "32 word"

text \<open>A \<open>char *\<close>: \<open>None\<close> is the null pointer.\<close>

type_synonym cstr = "string option"

text \<open>The error codes the functions return negated; \<open>None\<close> of \<open>errno option\<close> is 0.\<close>

datatype errno = ENODATA | EINVAL | EIO | EFAULT | E2BIG

record line =
  l_s :: i32
  l_e :: i32

record rectangle =
  x :: i32
  y :: i32
  width :: u32
  height :: u32

text \<open>
  \<open>struct monitor\<close>, with the nested structs \<open>info\<close>, \<open>virt_pos\<close> and \<open>wallpaper\<close>
  flattened into prefixed fields.  The flags \<open>active\<close>, \<open>is_primary\<close> and \<open>auto_rotate\<close>
  are only ever tested against zero and are booleans here.  \<open>files\<close> is the array of
  \<open>NUM_MONITOR_ORIENTS\<close> = 4 paths; the code reads it at indices 0 to 3 only.
\<close>

record monitor =
  active :: bool
  info_x :: i32
  info_y :: i32
  info_width :: u32
  info_height :: u32
  info_orientation :: u32
  info_is_primary :: bool
  virt_pos_x :: i32
  virt_pos_y :: i32
  wp_auto_rotate :: bool
  wp_style :: int
  wp_bg_color :: cstr
  wp_files :: "nat \<Rightarrow> cstr"

definition NUM_MONITOR_ORIENTS :: u32 where
  "NUM_MONITOR_ORIENTS = 4"

definition ORIENT_UNKNOWN :: u32 where
  "ORIENT_UNKNOWN = 5"

text \<open>
  What the platform reports for one display index: the two state flags of
  \<open>EnumDisplayDevices\<close> the code looks at, whether \<open>EnumDisplaySettings\<close> succeeded, and
  the fields of the \<open>DEVMODE\<close> it reads.
\<close>

record display =
  StateFlags_ACTIVE :: bool
  StateFlags_MIRRORING_DRIVER :: bool
  EnumDisplaySettings_ok :: bool
  dmPosition_x :: i32
  dmPosition_y :: i32
  dmPelsWidth :: u32
  dmPelsHeight :: u32
  dmDisplayOrientation :: u32

text \<open>The process-wide state: the global \<open>virtual_desktop\<close> and the array \<open>monitors\<close>.\<close>

record state =
  st_virtual_desktop :: rectangle
  st_monitors :: "monitor list"

text \<open>
  A \<open>MagickWand\<close> is known by the size of its image; pixels and colours are not
  modelled.  The calls into the image library and into the platform are parameters,
  collected in \<open>magick\<close>: each tells whether the call passes and what wand it leaves
  (\<open>None\<close> is \<open>MagickFail\<close>).  \<open>MagickWriteImage\<close> writes to the process-wide
  \<open>out_path\<close>, \<open>desktop_wallpaper_set\<close> is the result of installing that path.
  Three of the five style functions are parameters as well:
  \<open>wallpaper_style_fit_apply\<close> and \<open>wallpaper_style_fit_edge_cut_apply\<close> compute
  their scale in \<open>double\<close>, and \<open>wallpaper_style_tile_apply\<close> is a loop of composite
  calls; what they return (an error code and the wand) is all that their caller uses.
\<close>

record wand =
  image_width :: u32
  image_height :: u32

record magick =
  MagickReadImage :: "cstr \<Rightarrow> wand option"
  MagickSetImageBackgroundColor :: "wand \<Rightarrow> bool"
  MagickRotateImage :: "wand \<Rightarrow> i32 \<Rightarrow> wand option"
  MagickScaleImage :: "wand \<Rightarrow> u32 \<Rightarrow> u32 \<Rightarrow> wand option"
  MagickCropImage :: "wand \<Rightarrow> u32 \<Rightarrow> u32 \<Rightarrow> i32 \<Rightarrow> i32 \<Rightarrow> wand option"
  MagickExtentImage :: "wand \<Rightarrow> u32 \<Rightarrow> u32 \<Rightarrow> i32 \<Rightarrow> i32 \<Rightarrow> wand option"
  MagickCompositeImage :: "wand \<Rightarrow> wand \<Rightarrow> i32 \<Rightarrow> i32 \<Rightarrow> wand option"
  MagickWriteImage :: "wand \<Rightarrow> bool"
  wallpaper_style_fit_apply :: "monitor \<Rightarrow> wand \<Rightarrow> errno option \<times> wand"
  wallpaper_style_fit_edge_cut_apply :: "monitor \<Rightarrow> wand \<Rightarrow> errno option \<times> wand"
  wallpaper_style_tile_apply :: "monitor \<Rightarrow> wand \<Rightarrow> errno option \<times> wand"
  desktop_wallpaper_set :: "errno option"

text \<open>
  What \<open>wallpaper_generate\<close> leaves behind: its return value, the indices of the
  monitors whose tile was composited onto the canvas, and the canvas that was written
  to \<open>out_path\<close> (\<open>None\<close> when \<open>MagickWriteImage\<close> was not reached or failed).
\<close>

record generated =
  gen_err :: "errno option"
  gen_pasted :: "nat list"
  gen_written :: "wand option"

text \<open>
  What one call of \<open>wallpaper_update\<close> leaves behind: its return value, the state, the
  outcome of \<open>wallpaper_generate\<close>, and whether \<open>desktop_wallpaper_set\<close> was called.
  \<open>upd_layout_err\<close> records the value \<open>virtual_desktop_position_reposition\<close> returned,
  which the C code drops.
\<close>

record updated =
  upd_err :: "errno option"
  upd_layout_err :: "errno option"
  upd_state :: state
  upd_generated :: generated
  upd_install_called :: bool

section \<open>Geometry\<close>

definition is_axis_cover_point :: "line \<Rightarrow> i32 \<Rightarrow> bool" where
  "is_axis_cover_point l p =
     (if l_s l <s l_e l then l_s l \<le>s p \<and> p \<le>s l_e l
      else l_e l \<le>s p \<and> p \<le>s l_s l)"

text \<open>\<open>abs\<close> of \<open>stdlib.h\<close> on an \<open>int\<close>.\<close>

definition abs_i32 :: "i32 \<Rightarrow> i32" where
  "abs_i32 v = (if v <s 0 then - v else v)"

text \<open>
  \<open>virtual_desktop_size_compute\<close> updates \<open>desk\<close> in place; the model returns the
  updated rectangle.  The four lines are computed once, on entry, and the fields are
  assigned in the order of the source.
\<close>

definition virtual_desktop_size_compute :: "rectangle \<Rightarrow> rectangle \<Rightarrow> rectangle" where
  "virtual_desktop_size_compute desk append_r =
     (let dw = \<lparr>l_s = x desk, l_e = x desk + width desk\<rparr>;
          dh = \<lparr>l_s = y desk, l_e = y desk + height desk\<rparr>;
          aw = \<lparr>l_s = x append_r, l_e = x append_r + width append_r\<rparr>;
          ah = \<lparr>l_s = y append_r, l_e = y append_r + height append_r\<rparr>
      in if width desk = 0 \<and> height desk = 0
         then desk\<lparr>x := x append_r, y := y append_r,
                    width := width append_r, height := height append_r\<rparr>
         else
           let delta =
                 (if is_axis_cover_point aw (x desk)
                  then (if is_axis_cover_point aw (x desk + width desk)
                        then width desk
                        else abs_i32 (l_e aw - x desk))
                  else if is_axis_cover_point dw (x append_r)
                  then (if is_axis_cover_point dw (x append_r + width append_r)
                        then width append_r
                        else abs_i32 (l_e dw - x append_r))
                  else 0);
               desk = desk\<lparr>width := width append_r + width desk - delta\<rparr>;
               desk = (if x append_r <s x desk then desk\<lparr>x := x append_r\<rparr> else desk);
               delta =
                 (if is_axis_cover_point ah (y desk)
                  then (if is_axis_cover_point ah (y desk + height desk)
                        then height desk
                        else abs_i32 (l_e ah - y desk))
                  else if is_axis_cover_point dh (y append_r)
                  then (if is_axis_cover_point dh (y append_r + height append_r)
                        then height append_r
                        else abs_i32 (l_e dh - y append_r))
                  else 0);
               desk = desk\<lparr>height := height append_r + height desk - delta\<rparr>
           in (if y append_r <s y desk then desk\<lparr>y := y append_r\<rparr> else desk))"

section \<open>Layout\<close>

text \<open>
  \<open>dmdo_to_orien\<close> maps \<open>DMDO_DEFAULT\<close>, \<open>DMDO_90\<close>, \<open>DMDO_180\<close>, \<open>DMDO_270\<close> (0 to 3)
  to the orientation of the same number; \<open>display_info_update_1\<close> is
  \<open>__display_info_update\<close> on the monitor at the index, and \<open>display_info_update\<close> the
  loop over the displays the platform enumerates.  A display that is active, not a
  mirroring driver, and whose settings cannot be read is skipped (\<open>continue\<close>); a
  display past the end of the array is refused.
\<close>

definition dmdo_to_orien :: "u32 \<Rightarrow> u32" where
  "dmdo_to_orien v = (if v < 4 then v else ORIENT_UNKNOWN)"

definition display_info_update_1 :: "display \<Rightarrow> monitor \<Rightarrow> monitor" where
  "display_info_update_1 dev m =
     (let m = m\<lparr>active := False\<rparr>;
          m = (if StateFlags_MIRRORING_DRIVER dev then m\<lparr>active := False\<rparr>
               else if StateFlags_ACTIVE dev then m\<lparr>active := True\<rparr>
               else m)
      in if \<not> active m
         then m\<lparr>info_x := 0, info_y := 0, info_width := 0, info_height := 0,
                info_orientation := 0, info_is_primary := False\<rparr>
         else m\<lparr>info_x := dmPosition_x dev, info_y := dmPosition_y dev,
                info_width := dmPelsWidth dev, info_height := dmPelsHeight dev,
                info_orientation := dmdo_to_orien (dmDisplayOrientation dev),
                info_is_primary := (dmPosition_x dev = 0 \<and> dmPosition_y dev = 0)\<rparr>)"

fun display_info_update :: "display list \<Rightarrow> monitor list \<Rightarrow> monitor list" where
  "display_info_update [] ms = ms"
| "display_info_update (dev # devs) [] = []"
| "display_info_update (dev # devs) (m # ms) =
     (if StateFlags_ACTIVE dev \<and> \<not> StateFlags_MIRRORING_DRIVER dev
          \<and> \<not> EnumDisplaySettings_ok dev
      then m
      else display_info_update_1 dev m) # display_info_update devs ms"

text \<open>The compound literal \<open>virtual_desktop_update\<close> builds from a monitor.\<close>

definition monitor_rect :: "monitor \<Rightarrow> rectangle" where
  "monitor_rect m =
     \<lparr>x = info_x m, y = info_y m, width = info_width m, height = info_height m\<rparr>"

fun virtual_desktop_update :: "rectangle \<Rightarrow> monitor list \<Rightarrow> rectangle" where
  "virtual_desktop_update virtdesk [] = virtdesk"
| "virtual_desktop_update virtdesk (m # ms) =
     virtual_desktop_update
       (if \<not> active m then virtdesk
        else virtual_desktop_size_compute virtdesk (monitor_rect m)) ms"

definition virtual_desktop_position_reposition ::
    "rectangle \<Rightarrow> monitor list \<Rightarrow> errno option \<times> rectangle \<times> monitor list" where
  "virtual_desktop_position_reposition virtdesk ms =
     (if height virtdesk = 0 \<or> width virtdesk = 0 then (Some EINVAL, virtdesk, ms)
      else (None, virtdesk\<lparr>x := 0, y := 0\<rparr>,
            map (\<lambda>m. if \<not> active m then m
                     else m\<lparr>virt_pos_x := info_x m - x virtdesk,
                            virt_pos_y := info_y m - y virtdesk\<rparr>) ms))"

text \<open>
  The first three calls of \<open>wallpaper_update\<close>: \<open>display_info_update\<close>,
  \<open>virtual_desktop_update\<close> and \<open>virtual_desktop_position_reposition\<close>, all on the
  global state.  The canvas \<open>wallpaper_generate\<close> allocates afterwards has the width
  and height of the resulting \<open>st_virtual_desktop\<close>.
\<close>

definition wallpaper_update_layout :: "display list \<Rightarrow> state \<Rightarrow> errno option \<times> state" where
  "wallpaper_update_layout devs st =
     (let ms = display_info_update devs (st_monitors st);
          vd = virtual_desktop_update (st_virtual_desktop st) ms;
          (err, vd, ms) = virtual_desktop_position_reposition vd ms
      in (err, \<lparr>st_virtual_desktop = vd, st_monitors = ms\<rparr>))"

section \<open>Styles\<close>

definition wallpaper_style_stretch_apply ::
    "magick \<Rightarrow> monitor \<Rightarrow> wand \<Rightarrow> errno option \<times> wand" where
  "wallpaper_style_stretch_apply lib m w =
     (case MagickScaleImage lib w (info_width m) (info_height m) of
        None \<Rightarrow> (Some EFAULT, w)
      | Some w' \<Rightarrow> (None, w'))"

definition wallpaper_style_center_apply ::
    "magick \<Rightarrow> monitor \<Rightarrow> wand \<Rightarrow> errno option \<times> wand" where
  "wallpaper_style_center_apply lib m w =
     (let mon_width = info_width m; mon_height = info_height m;
          pic_width = image_width w; pic_height = image_height w
      in if mon_width = pic_width \<and> mon_height = pic_width then (None, w)
         else
           let status =
                 (if mon_width < pic_width \<and> mon_height < pic_height
                  then MagickCropImage lib w mon_width mon_height
                         (pic_width div 2 - mon_width div 2)
                         (pic_height div 2 - mon_height div 2)
                  else MagickExtentImage lib w mon_width mon_height
                         (mon_width div 2 - pic_width div 2)
                         (mon_height div 2 - pic_height div 2))
           in case status of None \<Rightarrow> (Some EFAULT, w) | Some w' \<Rightarrow> (None, w'))"

section \<open>Choosing the source and loading it\<close>

text \<open>
  \<open>wallpaper_auto_rotate\<close> returns the orientation whose file to use, or \<open>-1\<close>.  A
  file is taken when its pointer is not null.
\<close>

definition wallpaper_auto_rotate :: "monitor \<Rightarrow> int" where
  "wallpaper_auto_rotate m =
     (let flip_orient = sint (((info_orientation m * 90 + 180) mod 360) div 90)
      in if sint NUM_MONITOR_ORIENTS \<le> flip_orient then - 1
         else if wp_files m (nat flip_orient) \<noteq> None then flip_orient
         else case find (\<lambda>i. wp_files m i \<noteq> None) [0, 1, 2, 3] of
                Some i \<Rightarrow> int i
              | None \<Rightarrow> - 1)"

text \<open>
  The head of \<open>wallpaper_load\<close>, up to the point where \<open>wallpaper_path\<close> is settled:
  it returns the error the function returns there, or the path and \<open>alter_orient\<close>
  (\<open>-1\<close> when the file of the monitor's own orientation is used).
\<close>

definition wallpaper_source_select :: "monitor \<Rightarrow> errno + cstr \<times> int" where
  "wallpaper_source_select m =
     (let orient = info_orientation m; alter_orient = - 1
      in if \<not> active m then Inl ENODATA
         else if NUM_MONITOR_ORIENTS \<le> orient then Inl EINVAL
         else
           let wallpaper_path = wp_files m (unat orient)
           in if wallpaper_path = None \<or> wallpaper_path = Some []
              then (if \<not> wp_auto_rotate m then Inl ENODATA
                    else let alter_orient = wallpaper_auto_rotate m
                         in if alter_orient < 0 then Inl ENODATA
                            else Inr (wp_files m (nat alter_orient), alter_orient))
              else Inr (wallpaper_path, alter_orient))"

text \<open>
  \<open>(360 - (alter_orient * 90 - orient * 90)) % 360\<close>, computed in \<open>unsigned int\<close>
  because \<open>orient\<close> is a \<open>uint32_t\<close>.
\<close>

definition wallpaper_rotation :: "int \<Rightarrow> u32 \<Rightarrow> i32" where
  "wallpaper_rotation alter_orient orient =
     (360 - (word_of_int alter_orient * 90 - orient * 90)) mod 360"

text \<open>
  \<open>wallpaper_load\<close> returns its error code and what it stored in \<open>*out\<close>.  A style
  function that fails leaves its error in \<open>err\<close>, and the wand is stored all the same.
\<close>

definition wallpaper_load :: "magick \<Rightarrow> monitor \<Rightarrow> errno option \<times> wand option" where
  "wallpaper_load lib m =
     (case wallpaper_source_select m of
        Inl e \<Rightarrow> (Some e, None)
      | Inr (wallpaper_path, alter_orient) \<Rightarrow>
          (case MagickReadImage lib wallpaper_path of
             None \<Rightarrow> (Some EIO, None)
           | Some w \<Rightarrow>
               if \<not> MagickSetImageBackgroundColor lib w then (Some EFAULT, None)
               else
                 (case (if 0 \<le> alter_orient
                        then MagickRotateImage lib w
                               (wallpaper_rotation alter_orient (info_orientation m))
                        else Some w) of
                    None \<Rightarrow> (Some EFAULT, None)
                  | Some w \<Rightarrow>
                      if wp_style m = 0
                      then (let (err, w) = wallpaper_style_fit_apply lib m w
                            in (err, Some w))
                      else if wp_style m = 1
                      then (let (err, w) = wallpaper_style_fit_edge_cut_apply lib m w
                            in (err, Some w))
                      else if wp_style m = 2
                      then (let (err, w) = wallpaper_style_stretch_apply lib m w
                            in (err, Some w))
                      else if wp_style m = 3
                      then (let (err, w) = wallpaper_style_tile_apply lib m w
                            in (err, Some w))
                      else if wp_style m = 4
                      then (let (err, w) = wallpaper_style_center_apply lib m w
                            in (err, Some w))
                      else (Some EINVAL, None))))"

section \<open>Composing the canvas and the update cycle\<close>

text \<open>
  The first loop of \<open>wallpaper_generate\<close>: \<open>err\<close> is assigned by every call of
  \<open>wallpaper_load\<close> and keeps the value of the last one.
\<close>

fun wallpaper_load_all ::
    "magick \<Rightarrow> errno option \<Rightarrow> monitor list \<Rightarrow> errno option \<times> wand option list" where
  "wallpaper_load_all lib err [] = (err, [])"
| "wallpaper_load_all lib err (m # ms) =
     (if \<not> active m
      then (let (err, wallpapers) = wallpaper_load_all lib err ms in (err, None # wallpapers))
      else
        let (err, out) = wallpaper_load lib m;
            (err, wallpapers) = wallpaper_load_all lib err ms
        in (err, out # wallpapers))"

text \<open>
  The second loop, from monitor index \<open>i\<close> on: the canvas after the last composite
  (\<open>None\<close> when one failed and the function left for \<open>out_free_canvas\<close>) and the
  indices composited.
\<close>

fun composite_all ::
    "magick \<Rightarrow> wand \<Rightarrow> nat \<Rightarrow> (monitor \<times> wand option) list \<Rightarrow> wand option \<times> nat list" where
  "composite_all lib canvas i [] = (Some canvas, [])"
| "composite_all lib canvas i ((m, wp) # rest) =
     (case wp of
        None \<Rightarrow> composite_all lib canvas (Suc i) rest
      | Some tile \<Rightarrow>
          if \<not> active m then composite_all lib canvas (Suc i) rest
          else
            (case MagickCompositeImage lib canvas tile (virt_pos_x m) (virt_pos_y m) of
               None \<Rightarrow> (None, [])
             | Some canvas \<Rightarrow>
                 (let (res, pasted) = composite_all lib canvas (Suc i) rest
                  in (res, i # pasted))))"

definition wallpaper_generate :: "magick \<Rightarrow> state \<Rightarrow> generated" where
  "wallpaper_generate lib st =
     (let virt_desk = st_virtual_desktop st;
          (err, wallpapers) = wallpaper_load_all lib None (st_monitors st)
      in case MagickReadImage lib (Some ''XC:'') of
           None \<Rightarrow> \<lparr>gen_err = err, gen_pasted = [], gen_written = None\<rparr>
         | Some canvas \<Rightarrow>
             (case MagickExtentImage lib canvas (width virt_desk) (height virt_desk) 0 0 of
                None \<Rightarrow> \<lparr>gen_err = err, gen_pasted = [], gen_written = None\<rparr>
              | Some canvas \<Rightarrow>
                  (case composite_all lib canvas 0 (zip (st_monitors st) wallpapers) of
                     (None, pasted) \<Rightarrow>
                       \<lparr>gen_err = err, gen_pasted = pasted, gen_written = None\<rparr>
                   | (Some canvas, pasted) \<Rightarrow>
                       if \<not> MagickWriteImage lib canvas
                       then \<lparr>gen_err = Some EIO, gen_pasted = pasted, gen_written = None\<rparr>
                       else \<lparr>gen_err = err, gen_pasted = pasted,
                              gen_written = Some canvas\<rparr>)))"

definition wallpaper_update :: "magick \<Rightarrow> display list \<Rightarrow> state \<Rightarrow> updated" where
  "wallpaper_update lib devs st =
     (let (layout_err, st) = wallpaper_update_layout devs st;
          gen = wallpaper_generate lib st
      in case gen_err gen of
           Some err \<Rightarrow>
             \<lparr>upd_err = Some err, upd_layout_err = layout_err, upd_state = st,
              upd_generated = gen, upd_install_called = False\<rparr>
         | None \<Rightarrow>
             \<lparr>upd_err = desktop_wallpaper_set lib, upd_layout_err = layout_err,
              upd_state = st, upd_generated = gen, upd_install_called = True\<rparr>)"

section \<open>The union rule as the specification words it\<close>

text \<open>
  The specification (4.G) states the rule on mathematical integers: a rectangle with
  integer origin and non-negative integer extent, \<open>axis_covers_point\<close> with inclusive
  endpoints, and per axis a \<open>delta\<close> subtracted from the sum of the two extents.  The
  definitions of this section follow those words, not the code; they are what the code
  is compared with.
\<close>

record irect =
  ix :: int
  iy :: int
  iwidth :: int
  iheight :: int

definition axis_covers_point :: "int \<times> int \<Rightarrow> int \<Rightarrow> bool" where
  "axis_covers_point l p = (min (fst l) (snd l) \<le> p \<and> p \<le> max (fst l) (snd l))"

definition union_delta :: "int \<Rightarrow> int \<Rightarrow> int \<Rightarrow> int \<Rightarrow> int" where
  "union_delta c cw a aw =
     (let C = (c, c + cw); A = (a, a + aw)
      in if axis_covers_point A c
         then (if axis_covers_point A (c + cw) then cw else \<bar>snd A - c\<bar>)
         else if axis_covers_point C a
         then (if axis_covers_point C (a + aw) then aw else \<bar>snd C - a\<bar>)
         else 0)"

definition union_rect :: "irect \<Rightarrow> irect \<Rightarrow> irect" where
  "union_rect current addend =
     (if iwidth current = 0 \<and> iheight current = 0 then addend
      else \<lparr>ix = min (ix current) (ix addend),
            iy = min (iy current) (iy addend),
            iwidth = iwidth current + iwidth addend
                     - union_delta (ix current) (iwidth current) (ix addend) (iwidth addend),
            iheight = iheight current + iheight addend
                     - union_delta (iy current) (iheight current) (iy addend) (iheight addend)\<rparr>)"

text \<open>Two rectangles are disjoint when they have no point in common.\<close>

definition rect_disjoint :: "irect \<Rightarrow> irect \<Rightarrow> bool" where
  "rect_disjoint r r' =
     (ix r + iwidth r < ix r' \<or> ix r' + iwidth r' < ix r \<or>
      iy r + iheight r < iy r' \<or> iy r' + iheight r' < iy r)"

section \<open>Vocabulary of the properties\<close>

text \<open>
  The reading of a machine rectangle as an integer one, and the range in which no
  operation of \<open>virtual_desktop_size_compute\<close> overflows.  Outside it the C program
  has no defined meaning: \<open>aw.e - desk->x\<close> is a signed subtraction.
\<close>

definition rect_abs :: "rectangle \<Rightarrow> irect" where
  "rect_abs r =
     \<lparr>ix = sint (x r), iy = sint (y r), iwidth = uint (width r), iheight = uint (height r)\<rparr>"

definition rect_bounded :: "int \<Rightarrow> rectangle \<Rightarrow> bool" where
  "rect_bounded B r =
     (- B \<le> sint (x r) \<and> sint (x r) \<le> B \<and> - B \<le> sint (y r) \<and> sint (y r) \<le> B
      \<and> uint (width r) \<le> B \<and> uint (height r) \<le> B)"

text \<open>The \<open>delta\<close> of one axis, as the code computes it twice.\<close>

definition axis_delta :: "i32 \<Rightarrow> u32 \<Rightarrow> i32 \<Rightarrow> u32 \<Rightarrow> i32" where
  "axis_delta c cw a aw =
     (if is_axis_cover_point \<lparr>l_s = a, l_e = a + aw\<rparr> c
      then (if is_axis_cover_point \<lparr>l_s = a, l_e = a + aw\<rparr> (c + cw) then cw
            else abs_i32 (a + aw - c))
      else if is_axis_cover_point \<lparr>l_s = c, l_e = c + cw\<rparr> a
      then (if is_axis_cover_point \<lparr>l_s = c, l_e = c + cw\<rparr> (a + aw) then aw
            else abs_i32 (c + cw - a))
      else 0)"

text \<open>
  The flipped orientation of the specification (4.O), \<open>(orientation + 180) mod 360\<close>,
  in units of 90 degrees.
\<close>

definition flipped_orientation :: "u32 \<Rightarrow> nat" where
  "flipped_orientation orient = (unat orient + 2) mod 4"

text \<open>
  \<open>rect_empty\<close> is the test \<open>virtual_desktop_size_compute\<close> makes on \<open>desk\<close>;
  \<open>rect_pos\<close> says that both extents are positive, as the data model asks of a monitor;
  \<open>monitor_ok M\<close> that a monitor has positive extents and lies within \<open>M\<close>;
  \<open>desk_below r a\<close> that \<open>r\<close> has positive extents and its origin is left of and above
  the origin of \<open>a\<close>.
\<close>

definition rect_empty :: "rectangle \<Rightarrow> bool" where
  "rect_empty r = (width r = 0 \<and> height r = 0)"

definition rect_pos :: "rectangle \<Rightarrow> bool" where
  "rect_pos r = (width r \<noteq> 0 \<and> height r \<noteq> 0)"

definition monitor_ok :: "int \<Rightarrow> monitor \<Rightarrow> bool" where
  "monitor_ok M m = (rect_bounded M (monitor_rect m) \<and> rect_pos (monitor_rect m))"

definition desk_below :: "rectangle \<Rightarrow> rectangle \<Rightarrow> bool" where
  "desk_below r a = (rect_pos r \<and> sint (x r) \<le> sint (x a) \<and> sint (y r) \<le> sint (y a))"

section \<open>Concrete inputs\<close>

text \<open>
  The state at program start: the statically allocated, zeroed \<open>virtual_desktop\<close> and
  the array of \<open>MONITOR_COUNT_MAX\<close> = 8 monitors, zeroed (\<open>monitor_zero\<close>) or as the
  configuration file set their \<open>wallpaper\<close> fields (\<open>configured\<close>).
\<close>

definition monitor_zero :: monitor where
  "monitor_zero =
     \<lparr>active = False, info_x = 0, info_y = 0, info_width = 0, info_height = 0,
      info_orientation = 0, info_is_primary = False, virt_pos_x = 0, virt_pos_y = 0,
      wp_auto_rotate = False, wp_style = 0, wp_bg_color = None,
      wp_files = (\<lambda>i. None)\<rparr>"

definition configured :: "int \<Rightarrow> bool \<Rightarrow> (nat \<Rightarrow> cstr) \<Rightarrow> monitor" where
  "configured style rot files =
     monitor_zero\<lparr>wp_auto_rotate := rot, wp_style := style, wp_files := files\<rparr>"

definition state_init :: "monitor list \<Rightarrow> state" where
  "state_init ms =
     \<lparr>st_virtual_desktop = \<lparr>x = 0, y = 0, width = 0, height = 0\<rparr>, st_monitors = ms\<rparr>"

text \<open>An active display with readable settings.\<close>

definition display_at :: "i32 \<Rightarrow> i32 \<Rightarrow> u32 \<Rightarrow> u32 \<Rightarrow> u32 \<Rightarrow> display" where
  "display_at px py w h orient =
     \<lparr>StateFlags_ACTIVE = True, StateFlags_MIRRORING_DRIVER = False,
      EnumDisplaySettings_ok = True, dmPosition_x = px, dmPosition_y = py,
      dmPelsWidth = w, dmPelsHeight = h, dmDisplayOrientation = orient\<rparr>"

text \<open>
  Three layouts: scenario S3 of the specification (a monitor left of the primary one);
  two monitors side by side; and three monitors in a row of which the platform
  enumerates the middle one last.
\<close>

definition left_of_primary :: "display list" where
  "left_of_primary = [display_at (- 1280) 0 1280 1024 0, display_at 0 0 1920 1080 0]"

definition monitors_left_of_primary :: "monitor list" where
  "monitors_left_of_primary =
     display_info_update left_of_primary (replicate 8 monitor_zero)"

definition side_by_side :: "display list" where
  "side_by_side = [display_at 0 0 1920 1080 0, display_at 1920 0 1920 1080 0]"

definition three_in_a_row :: "display list" where
  "three_in_a_row =
     [display_at 0 0 1920 1080 0, display_at 3840 0 1920 1080 0,
      display_at 1920 0 1920 1080 0]"

text \<open>
  Scenario S4 of the specification: a portrait monitor (orientation 90 degrees, 1080
  by 1920) with auto-rotate on and only the \<open>landscape_0\<close> file set; and a square
  monitor with style \<open>center\<close>.
\<close>

definition portrait_with_landscape_file :: monitor where
  "portrait_with_landscape_file =
     monitor_zero\<lparr>active := True, info_width := 1080, info_height := 1920,
                   info_orientation := 1, wp_auto_rotate := True,
                   wp_files := (\<lambda>i. if i = 0 then Some ''A'' else None)\<rparr>"

definition square_monitor :: monitor where
  "square_monitor =
     monitor_zero\<lparr>active := True, info_width := 1920, info_height := 1920, wp_style := 4\<rparr>"

text \<open>
  Two landscape monitors for the choice of the source: one with auto-rotate off whose
  only path, \<open>landscape_0\<close>, is the empty string; one with auto-rotate on, a
  \<open>portrait_90\<close> picture and the empty string as \<open>landscape_180\<close>.
\<close>

definition empty_path_no_auto_rotate :: monitor where
  "empty_path_no_auto_rotate =
     monitor_zero\<lparr>active := True, info_width := 1920, info_height := 1080,
                   wp_files := (\<lambda>i. if i = 0 then Some '''' else None)\<rparr>"

definition empty_path_flipped :: monitor where
  "empty_path_flipped =
     monitor_zero\<lparr>active := True, info_width := 1920, info_height := 1080,
                   wp_auto_rotate := True,
                   wp_files := (\<lambda>i. if i = 1 then Some ''b.png''
                                    else if i = 2 then Some '''' else None)\<rparr>"

text \<open>
  An image library in which every call passes: reading \<open>XC:\<close> gives a one-pixel
  canvas, reading any other path is looked up in \<open>fs\<close>, scaling, cropping and
  extending give an image of the size asked for, a rotation by 90 or 270 degrees swaps
  width and height.  \<open>one_file name\<close> is a file system that holds a single 800 by 600
  image.
\<close>

definition magick_pass :: "(string \<Rightarrow> wand option) \<Rightarrow> magick" where
  "magick_pass fs =
     \<lparr>MagickReadImage =
        (\<lambda>p. case p of
                None \<Rightarrow> None
              | Some s \<Rightarrow>
                  if s = ''XC:'' then Some \<lparr>image_width = 1, image_height = 1\<rparr> else fs s),
      MagickSetImageBackgroundColor = (\<lambda>w. True),
      MagickRotateImage =
        (\<lambda>w r. Some (if r = 90 \<or> r = 270
                      then \<lparr>image_width = image_height w, image_height = image_width w\<rparr>
                      else w)),
      MagickScaleImage = (\<lambda>w c r. Some \<lparr>image_width = c, image_height = r\<rparr>),
      MagickCropImage = (\<lambda>w c r px py. Some \<lparr>image_width = c, image_height = r\<rparr>),
      MagickExtentImage = (\<lambda>w c r px py. Some \<lparr>image_width = c, image_height = r\<rparr>),
      MagickCompositeImage = (\<lambda>canvas tile px py. Some canvas),
      MagickWriteImage = (\<lambda>canvas. True),
      wallpaper_style_fit_apply =
        (\<lambda>m w. (None, \<lparr>image_width = info_width m, image_height = info_height m\<rparr>)),
      wallpaper_style_fit_edge_cut_apply =
        (\<lambda>m w. (None, \<lparr>image_width = info_width m, image_height = info_height m\<rparr>)),
      wallpaper_style_tile_apply =
        (\<lambda>m w. (None, \<lparr>image_width = info_width m, image_height = info_height m\<rparr>)),
      desktop_wallpaper_set = None\<rparr>"

text \<open>The same library, except that an image cannot be extended to an empty size.\<close>

definition magick_no_empty_extent :: "(string \<Rightarrow> wand option) \<Rightarrow> magick" where
  "magick_no_empty_extent fs =
     (magick_pass fs)\<lparr>MagickExtentImage :=
        (\<lambda>w c r px py. if c = 0 \<or> r = 0 then None
                        else Some \<lparr>image_width = c, image_height = r\<rparr>)\<rparr>"

definition one_file :: "string \<Rightarrow> string \<Rightarrow> wand option" where
  "one_file name s =
     (if s = name then Some \<lparr>image_width = 800, image_height = 600\<rparr> else None)"

section \<open>Machine arithmetic inside the range\<close>

lemma vdsc_fields:
  "\<not> (width d = 0 \<and> height d = 0) \<Longrightarrow>
   virtual_desktop_size_compute d a =
     \<lparr>x = (if x a <s x d then x a else x d),
      y = (if y a <s y d then y a else y d),
      width = width a + width d - axis_delta (x d) (width d) (x a) (width a),
      height = height a + height d - axis_delta (y d) (height d) (y a) (height a)\<rparr>"
  by (auto simp: virtual_desktop_size_compute_def axis_delta_def Let_def)

lemma vdsc_empty:
  "width d = 0 \<and> height d = 0 \<Longrightarrow> virtual_desktop_size_compute d a = a"
  by (simp add: virtual_desktop_size_compute_def Let_def)

lemma sint_u32: "uint (w::32 word) < 2^31 \<Longrightarrow> sint w = uint w"
  apply (simp add: sint_uint)
  apply (rule signed_take_bit_int_eq_self)
   apply (rule order_trans[of _ 0])
  apply simp_all
  done

lemma sint_add32:
  "- (2^31) \<le> sint (a::32 word) + sint b \<Longrightarrow> sint a + sint b < 2^31 \<Longrightarrow>
   sint (a + b) = sint a + sint b"
  by (simp add: sint_word_ariths signed_take_bit_int_eq_self)

lemma sint_sub32:
  "- (2^31) \<le> sint (a::32 word) - sint b \<Longrightarrow> sint a - sint b < 2^31 \<Longrightarrow>
   sint (a - b) = sint a - sint b"
  by (simp add: sint_word_ariths signed_take_bit_int_eq_self)

lemma sint_neg32:
  "- (2^31) < sint (a::32 word) \<Longrightarrow> sint (- a) = - sint a"
  using sint_lt[of a]
  apply (simp add: sint_word_ariths )
  apply (rule signed_take_bit_int_eq_self)
  apply simp_all
  done

lemma uint_of_sint32: "0 \<le> sint (w::32 word) \<Longrightarrow> uint w = sint w"
  using sint_u32[of w] uint_lt2p[of w]
  apply (cases "uint w < 2^31")
   apply simp
  apply (simp add: sint_uint signed_take_bit_eq_take_bit_minus not_less)
  apply (simp add: bit_iff_odd take_bit_eq_mod )
  using of_bool_eq_iff by force

lemma cover_sint:
  "is_axis_cover_point \<lparr>l_s = s, l_e = e\<rparr> p = axis_covers_point (sint s, sint e) (sint p)"
  by (auto simp: is_axis_cover_point_def axis_covers_point_def word_sle_eq word_sless_alt min_def max_def)

lemma abs_i32_sint: "- (2^31) < sint v \<Longrightarrow> sint (abs_i32 v) = \<bar>sint v\<bar>"
  by (auto simp: abs_i32_def word_sless_alt sint_neg32)

lemma axis_delta_sint:
  fixes c cw a aw :: "32 word"
  assumes "- (2^29) \<le> sint c" "sint c \<le> 2^29" "uint cw \<le> 2^29"
      and "- (2^29) \<le> sint a" "sint a \<le> 2^29" "uint aw \<le> 2^29"
  shows "sint (axis_delta c cw a aw) = union_delta (sint c) (uint cw) (sint a) (uint aw)"
proof -
  define C CW A AW where "C = sint c" and "CW = uint cw" and "A = sint a" and "AW = uint aw"
  have b: "- 536870912 \<le> C" "C \<le> 536870912" "0 \<le> CW" "CW \<le> 536870912"
          "- 536870912 \<le> A" "A \<le> 536870912" "0 \<le> AW" "AW \<le> 536870912"
    using assms by (simp_all add: C_def CW_def A_def AW_def)
  have cw: "sint cw = CW" and aw: "sint aw = AW"
    using assms by (simp_all add: sint_u32 CW_def AW_def)
  have "sint (c + cw) = sint c + sint cw"
    by (rule sint_add32) (use b in \<open>simp_all add: cw C_def [symmetric]\<close>)
  then have ce: "sint (c + cw) = C + CW"
    by (simp add: cw C_def)
  have "sint (a + aw) = sint a + sint aw"
    by (rule sint_add32) (use b in \<open>simp_all add: aw A_def [symmetric]\<close>)
  then have ae: "sint (a + aw) = A + AW"
    by (simp add: aw A_def)
  have "sint (a + aw - c) = sint (a + aw) - sint c"
    by (rule sint_sub32) (use b in \<open>simp_all add: ae C_def [symmetric]\<close>)
  then have d1: "sint (a + aw - c) = A + AW - C"
    by (simp add: ae C_def)
  have "sint (c + cw - a) = sint (c + cw) - sint a"
    by (rule sint_sub32) (use b in \<open>simp_all add: ce A_def [symmetric]\<close>)
  then have d2: "sint (c + cw - a) = C + CW - A"
    by (simp add: ce A_def)
  have "sint (abs_i32 (a + aw - c)) = \<bar>sint (a + aw - c)\<bar>"
    by (rule abs_i32_sint) (use b in \<open>simp add: d1\<close>)
  then have a1: "sint (abs_i32 (a + aw - c)) = \<bar>A + AW - C\<bar>"
    by (simp add: d1)
  have "sint (abs_i32 (c + cw - a)) = \<bar>sint (c + cw - a)\<bar>"
    by (rule abs_i32_sint) (use b in \<open>simp add: d2\<close>)
  then have a2: "sint (abs_i32 (c + cw - a)) = \<bar>C + CW - A\<bar>"
    by (simp add: d2)
  have "sint (axis_delta c cw a aw) = union_delta C CW A AW"
    by (simp add: axis_delta_def union_delta_def cover_sint ce ae a1 a2 cw aw Let_def
          C_def [symmetric] A_def [symmetric])
  then show ?thesis
    by (simp add: C_def CW_def A_def AW_def)
qed

lemma union_delta_bounds:
  assumes "0 \<le> cw" "0 \<le> aw"
  shows "0 \<le> union_delta c cw a aw" "union_delta c cw a aw \<le> cw" "union_delta c cw a aw \<le> aw"
  using assms by (auto simp: union_delta_def axis_covers_point_def Let_def min_def max_def split: if_splits)

lemma union_delta_commute:
  assumes "0 \<le> cw" "0 \<le> aw"
  shows "union_delta c cw a aw = union_delta a aw c cw"
  using assms by (auto simp: union_delta_def axis_covers_point_def Let_def min_def max_def split: if_splits)


lemma axis_width_uint:
  fixes c cw a aw :: "32 word"
  assumes "- (2^29) \<le> sint c" "sint c \<le> 2^29" "uint cw \<le> 2^29"
      and "- (2^29) \<le> sint a" "sint a \<le> 2^29" "uint aw \<le> 2^29"
  shows "uint (aw + cw - axis_delta c cw a aw)
           = uint cw + uint aw - union_delta (sint c) (uint cw) (sint a) (uint aw)"
proof -
  define CW AW D where "CW = uint cw" and "AW = uint aw"
    and "D = union_delta (sint c) (uint cw) (sint a) (uint aw)"
  have b: "0 \<le> CW" "CW \<le> 536870912" "0 \<le> AW" "AW \<le> 536870912"
    using assms by (simp_all add: CW_def AW_def)
  have D: "0 \<le> D" "D \<le> CW" "D \<le> AW"
    using union_delta_bounds [of "uint cw" "uint aw" "sint c" "sint a"]
    by (simp_all add: D_def CW_def AW_def)
  have cw: "sint cw = CW" and aw: "sint aw = AW"
    using assms by (simp_all add: sint_u32 CW_def AW_def)
  have dl: "sint (axis_delta c cw a aw) = D"
    using axis_delta_sint [OF assms] by (simp add: D_def)
  have "sint (aw + cw) = sint aw + sint cw"
    by (rule sint_add32) (use b in \<open>simp_all add: cw aw\<close>)
  then have s: "sint (aw + cw) = AW + CW"
    by (simp add: cw aw)
  have "sint (aw + cw - axis_delta c cw a aw) = sint (aw + cw) - sint (axis_delta c cw a aw)"
    by (rule sint_sub32) (use b D in \<open>simp_all add: s dl\<close>)
  then have r: "sint (aw + cw - axis_delta c cw a aw) = AW + CW - D"
    by (simp add: s dl)
  have "uint (aw + cw - axis_delta c cw a aw) = sint (aw + cw - axis_delta c cw a aw)"
    by (rule uint_of_sint32) (use b D in \<open>simp add: r\<close>)
  then show ?thesis
    by (simp add: r CW_def AW_def D_def)
qed

lemma rect_abs_inject: "rect_abs r = rect_abs r' \<Longrightarrow> r = (r' :: rectangle)"
  by (cases r; cases r') (auto simp add: rect_abs_def intro: signed_word_eqI word_uint_eqI)

lemma vdsc_abs:
  assumes "rect_bounded (2^29) d" "rect_bounded (2^29) a"
  shows "rect_abs (virtual_desktop_size_compute d a) = union_rect (rect_abs d) (rect_abs a)"
proof (cases "width d = 0 \<and> height d = 0")
  case True
  then show ?thesis
    by (simp add: vdsc_empty union_rect_def rect_abs_def)
next
  case False
  have w: "uint (width a + width d - axis_delta (x d) (width d) (x a) (width a))
             = uint (width d) + uint (width a)
               - union_delta (sint (x d)) (uint (width d)) (sint (x a)) (uint (width a))"
    by (rule axis_width_uint) (use assms in \<open>simp_all add: rect_bounded_def\<close>)
  have h: "uint (height a + height d - axis_delta (y d) (height d) (y a) (height a))
             = uint (height d) + uint (height a)
               - union_delta (sint (y d)) (uint (height d)) (sint (y a)) (uint (height a))"
    by (rule axis_width_uint) (use assms in \<open>simp_all add: rect_bounded_def\<close>)
  from False have ne: "\<not> (uint (width d) = 0 \<and> uint (height d) = 0)"
    by (simp add: uint_0_iff)
  show ?thesis
    using ne by (auto simp add: vdsc_fields [OF False] union_rect_def rect_abs_def w h
        word_sless_alt min_def)
qed

section \<open>Symmetry and self-union\<close>

lemma union_rect_commute:
  assumes "0 \<le> iwidth r" "0 \<le> iheight r" "0 \<le> iwidth r'" "0 \<le> iheight r'"
      and "\<not> (iwidth r = 0 \<and> iheight r = 0)" "\<not> (iwidth r' = 0 \<and> iheight r' = 0)"
  shows "union_rect r r' = union_rect r' r"
  using assms union_delta_commute [of "iwidth r" "iwidth r'" "ix r" "ix r'"]
    union_delta_commute [of "iheight r" "iheight r'" "iy r" "iy r'"]
  by (auto simp: union_rect_def min_def)

lemma vdsc_commute:
  assumes "rect_bounded (2^29) r" "rect_bounded (2^29) r'" "\<not> rect_empty r" "\<not> rect_empty r'"
  shows "virtual_desktop_size_compute r r' = virtual_desktop_size_compute r' r"
proof -
  have "union_rect (rect_abs r) (rect_abs r') = union_rect (rect_abs r') (rect_abs r)"
    by (rule union_rect_commute) (use assms in \<open>auto simp: rect_abs_def rect_empty_def uint_0_iff\<close>)
  then have "rect_abs (virtual_desktop_size_compute r r') = rect_abs (virtual_desktop_size_compute r' r)"
    using vdsc_abs [OF assms(1,2)] vdsc_abs [OF assms(2,1)] by simp
  then show ?thesis
    by (rule rect_abs_inject)
qed

lemma cover_ends:
  "is_axis_cover_point \<lparr>l_s = s, l_e = e\<rparr> s" "is_axis_cover_point \<lparr>l_s = s, l_e = e\<rparr> e"
  by (auto simp: is_axis_cover_point_def word_sle_eq word_sless_alt)

lemma vdsc_idem: "virtual_desktop_size_compute r r = r"
  by (cases "width r = 0 \<and> height r = 0")
     (simp_all add: vdsc_empty vdsc_fields axis_delta_def cover_ends)

section \<open>The fold over the monitors\<close>

lemma rect_bounded_mono: "rect_bounded K r \<Longrightarrow> K \<le> K' \<Longrightarrow> rect_bounded K' r"
  by (auto simp: rect_bounded_def)

lemma rect_bounded_nonneg: "rect_bounded K r \<Longrightarrow> 0 \<le> K"
  using uint_ge_0 [of "width r"] unfolding rect_bounded_def by linarith

lemma union_rect_fields:
  assumes "0 \<le> iwidth c" "0 \<le> iheight c" "0 \<le> iwidth a" "0 \<le> iheight a"
  shows "ix (union_rect c a) \<le> ix a" "iy (union_rect c a) \<le> iy a"
    and "iwidth a \<le> iwidth (union_rect c a)" "iheight a \<le> iheight (union_rect c a)"
    and "iwidth (union_rect c a) \<le> iwidth c + iwidth a" "iheight (union_rect c a) \<le> iheight c + iheight a"
    and "min (ix c) (ix a) \<le> ix (union_rect c a)" "min (iy c) (iy a) \<le> iy (union_rect c a)"
  using assms union_delta_bounds [of "iwidth c" "iwidth a" "ix c" "ix a"]
    union_delta_bounds [of "iheight c" "iheight a" "iy c" "iy a"]
  by (auto simp: union_rect_def)

lemma union_rect_fields_nonempty:
  assumes "0 \<le> iwidth c" "0 \<le> iheight c" "0 \<le> iwidth a" "0 \<le> iheight a"
    and "\<not> (iwidth c = 0 \<and> iheight c = 0)"
  shows "ix (union_rect c a) \<le> ix c" "iy (union_rect c a) \<le> iy c"
    and "iwidth c \<le> iwidth (union_rect c a)" "iheight c \<le> iheight (union_rect c a)"
  using assms union_delta_bounds [of "iwidth c" "iwidth a" "ix c" "ix a"]
    union_delta_bounds [of "iheight c" "iheight a" "iy c" "iy a"]
  by (auto simp: union_rect_def)

lemma rect_abs_sel:
  "ix (rect_abs r) = sint (x r)" "iy (rect_abs r) = sint (y r)"
  "iwidth (rect_abs r) = uint (width r)" "iheight (rect_abs r) = uint (height r)"
  by (simp_all add: rect_abs_def)

lemma vdsc_abs_sel:
  assumes "rect_bounded (2^29) d" "rect_bounded (2^29) a"
  shows "sint (x (virtual_desktop_size_compute d a)) = ix (union_rect (rect_abs d) (rect_abs a))"
    and "sint (y (virtual_desktop_size_compute d a)) = iy (union_rect (rect_abs d) (rect_abs a))"
    and "uint (width (virtual_desktop_size_compute d a)) = iwidth (union_rect (rect_abs d) (rect_abs a))"
    and "uint (height (virtual_desktop_size_compute d a)) = iheight (union_rect (rect_abs d) (rect_abs a))"
  by (simp_all add: vdsc_abs [OF assms, symmetric] rect_abs_sel)

lemma vdsc_step:
  assumes d: "rect_bounded K d" and a: "rect_bounded M a" and KM: "K + M \<le> 2^29"
  shows "rect_bounded (K + M) (virtual_desktop_size_compute d a)"
    and "sint (x (virtual_desktop_size_compute d a)) \<le> sint (x a)"
    and "sint (y (virtual_desktop_size_compute d a)) \<le> sint (y a)"
    and "uint (width a) \<le> uint (width (virtual_desktop_size_compute d a))"
    and "uint (height a) \<le> uint (height (virtual_desktop_size_compute d a))"
proof -
  have K: "0 \<le> K" and M: "0 \<le> M"
    using d a by (auto dest: rect_bounded_nonneg)
  have "rect_bounded (2^29) d" "rect_bounded (2^29) a"
    using d a K M KM by (auto intro: rect_bounded_mono)
  note e = vdsc_abs_sel [OF this]
  define r where "r = virtual_desktop_size_compute d a"
  define u where "u = union_rect (rect_abs d) (rect_abs a)"
  have f: "sint (x r) = ix u" "sint (y r) = iy u" "uint (width r) = iwidth u" "uint (height r) = iheight u"
    using e by (simp_all add: r_def u_def)
  have n: "0 \<le> iwidth (rect_abs d)" "0 \<le> iheight (rect_abs d)"
          "0 \<le> iwidth (rect_abs a)" "0 \<le> iheight (rect_abs a)"
    by (simp_all add: rect_abs_def)
  note uf = union_rect_fields [OF n, folded u_def]
  have g: "ix (rect_abs d) = sint (x d)" "iy (rect_abs d) = sint (y d)"
          "iwidth (rect_abs d) = uint (width d)" "iheight (rect_abs d) = uint (height d)"
          "ix (rect_abs a) = sint (x a)" "iy (rect_abs a) = sint (y a)"
          "iwidth (rect_abs a) = uint (width a)" "iheight (rect_abs a) = uint (height a)"
    by (simp_all add: rect_abs_def)
  show "rect_bounded (K + M) (virtual_desktop_size_compute d a)"
    using uf d a K M unfolding rect_bounded_def r_def [symmetric] f g by linarith
  show "sint (x (virtual_desktop_size_compute d a)) \<le> sint (x a)"
    using uf unfolding r_def [symmetric] f g by linarith
  show "sint (y (virtual_desktop_size_compute d a)) \<le> sint (y a)"
    using uf unfolding r_def [symmetric] f g by linarith
  show "uint (width a) \<le> uint (width (virtual_desktop_size_compute d a))"
    using uf unfolding r_def [symmetric] f g by linarith
  show "uint (height a) \<le> uint (height (virtual_desktop_size_compute d a))"
    using uf unfolding r_def [symmetric] f g by linarith
qed

lemma vdsc_step_nonempty:
  assumes d: "rect_bounded K d" and a: "rect_bounded M a" and KM: "K + M \<le> 2^29"
    and ne: "\<not> rect_empty d"
  shows "sint (x (virtual_desktop_size_compute d a)) \<le> sint (x d)"
    and "sint (y (virtual_desktop_size_compute d a)) \<le> sint (y d)"
    and "uint (width d) \<le> uint (width (virtual_desktop_size_compute d a))"
    and "uint (height d) \<le> uint (height (virtual_desktop_size_compute d a))"
proof -
  have K: "0 \<le> K" and M: "0 \<le> M"
    using d a by (auto dest: rect_bounded_nonneg)
  have "rect_bounded (2^29) d" "rect_bounded (2^29) a"
    using d a K M KM by (auto intro: rect_bounded_mono)
  note e = vdsc_abs_sel [OF this]
  define r where "r = virtual_desktop_size_compute d a"
  define u where "u = union_rect (rect_abs d) (rect_abs a)"
  have f: "sint (x r) = ix u" "sint (y r) = iy u" "uint (width r) = iwidth u" "uint (height r) = iheight u"
    using e by (simp_all add: r_def u_def)
  have n: "0 \<le> iwidth (rect_abs d)" "0 \<le> iheight (rect_abs d)"
          "0 \<le> iwidth (rect_abs a)" "0 \<le> iheight (rect_abs a)"
    by (simp_all add: rect_abs_def)
  have ne': "\<not> (iwidth (rect_abs d) = 0 \<and> iheight (rect_abs d) = 0)"
    using ne by (simp add: rect_empty_def rect_abs_def uint_0_iff)
  note uf = union_rect_fields_nonempty [OF n ne', folded u_def]
  have g: "ix (rect_abs d) = sint (x d)" "iy (rect_abs d) = sint (y d)"
          "iwidth (rect_abs d) = uint (width d)" "iheight (rect_abs d) = uint (height d)"
    by (simp_all add: rect_abs_def)
  show "sint (x (virtual_desktop_size_compute d a)) \<le> sint (x d)"
    using uf unfolding r_def [symmetric] f g by linarith
  show "sint (y (virtual_desktop_size_compute d a)) \<le> sint (y d)"
    using uf unfolding r_def [symmetric] f g by linarith
  show "uint (width d) \<le> uint (width (virtual_desktop_size_compute d a))"
    using uf unfolding r_def [symmetric] f g by linarith
  show "uint (height d) \<le> uint (height (virtual_desktop_size_compute d a))"
    using uf unfolding r_def [symmetric] f g by linarith
qed

lemma uint_pos_iff: "0 < uint w \<longleftrightarrow> w \<noteq> 0"
  by (simp add: order_less_le uint_0_iff eq_commute [of 0])

lemma rect_pos_uint: "rect_pos r \<longleftrightarrow> 0 < uint (width r) \<and> 0 < uint (height r)"
  by (simp add: rect_pos_def uint_pos_iff)

lemma rect_pos_nonempty: "rect_pos r \<Longrightarrow> \<not> rect_empty r"
  by (simp add: rect_pos_def rect_empty_def)

lemma vdsc_below_addend:
  assumes "rect_bounded K d" "rect_bounded M a" "K + M \<le> 2^29" "rect_pos a"
  shows "desk_below (virtual_desktop_size_compute d a) a"
  using vdsc_step(2-5) [OF assms(1-3)] assms(4)
  unfolding desk_below_def rect_pos_uint by linarith

lemma vdsc_below_desk:
  assumes "rect_bounded K d" "rect_bounded M a" "K + M \<le> 2^29" "rect_pos d"
  shows "desk_below (virtual_desktop_size_compute d a) d"
  using vdsc_step_nonempty [OF assms(1-3) rect_pos_nonempty [OF assms(4)]] assms(4)
  unfolding desk_below_def rect_pos_uint by linarith

lemma desk_below_trans: "desk_below r d \<Longrightarrow> desk_below d a \<Longrightarrow> desk_below r a"
  by (auto simp: desk_below_def)

lemma desk_below_refl: "rect_pos d \<Longrightarrow> desk_below d d"
  by (simp add: desk_below_def)

lemma vdu_inv:
  assumes "rect_bounded K d"
    and "\<forall>m\<in>set ms. active m \<longrightarrow> monitor_ok M m"
    and "K + int (length ms) * M \<le> 2^29" and "0 \<le> M"
  shows "rect_bounded (K + int (length ms) * M) (virtual_desktop_update d ms)
       \<and> (rect_pos d \<longrightarrow> desk_below (virtual_desktop_update d ms) d)
       \<and> (\<forall>m\<in>set ms. active m \<longrightarrow> desk_below (virtual_desktop_update d ms) (monitor_rect m))"
  using assms
proof (induction ms arbitrary: d K)
  case Nil
  then show ?case by (simp add: desk_below_refl)
next
  case (Cons m ms)
  define d' where "d' = (if \<not> active m then d else virtual_desktop_size_compute d (monitor_rect m))"
  have vu: "virtual_desktop_update d (m # ms) = virtual_desktop_update d' ms"
    by (simp add: d'_def)
  have len: "K + M + int (length ms) * M = K + int (length (m # ms)) * M"
    by (simp add: algebra_simps)
  have KM: "K + M \<le> 2^29"
  proof -
    have "0 \<le> int (length ms) * M" using Cons.prems(4) by simp
    then show ?thesis using Cons.prems(3) len by linarith
  qed
  have mok: "active m \<Longrightarrow> rect_bounded M (monitor_rect m) \<and> rect_pos (monitor_rect m)"
    using Cons.prems(2) by (simp add: monitor_ok_def)
  have bd': "rect_bounded (K + M) d'"
  proof (cases "active m")
    case True
    then show ?thesis
      using vdsc_step(1) [OF Cons.prems(1) _ KM] mok by (simp add: d'_def)
  next
    case False
    then show ?thesis
      using rect_bounded_mono [OF Cons.prems(1), of "K + M"] Cons.prems(4) by (simp add: d'_def)
  qed
  have ih: "rect_bounded (K + M + int (length ms) * M) (virtual_desktop_update d' ms)
       \<and> (rect_pos d' \<longrightarrow> desk_below (virtual_desktop_update d' ms) d')
       \<and> (\<forall>m\<in>set ms. active m \<longrightarrow> desk_below (virtual_desktop_update d' ms) (monitor_rect m))"
    by (rule Cons.IH [OF bd']) (use Cons.prems len in auto)
  have p1: "rect_bounded (K + int (length (m # ms)) * M) (virtual_desktop_update d (m # ms))"
    using ih by (simp only: vu len)
  have p2: "desk_below (virtual_desktop_update d (m # ms)) d" if pd: "rect_pos d"
  proof -
    have "desk_below d' d"
    proof (cases "active m")
      case True
      then show ?thesis
        using vdsc_below_desk [OF Cons.prems(1) _ KM pd] mok by (simp add: d'_def)
    next
      case False
      then show ?thesis by (simp add: d'_def desk_below_refl pd)
    qed
    moreover from this have "rect_pos d'" by (simp add: desk_below_def)
    ultimately show ?thesis
      using ih desk_below_trans unfolding vu by blast
  qed
  have p3: "desk_below (virtual_desktop_update d (m # ms)) (monitor_rect m)" if am: "active m"
  proof -
    have "desk_below d' (monitor_rect m)"
      using vdsc_below_addend [OF Cons.prems(1) _ KM] mok am by (simp add: d'_def)
    moreover from this have "rect_pos d'" by (simp add: desk_below_def)
    ultimately show ?thesis
      using ih desk_below_trans unfolding vu by blast
  qed
  have p4: "\<forall>m'\<in>set ms. active m' \<longrightarrow> desk_below (virtual_desktop_update d (m # ms)) (monitor_rect m')"
    using ih unfolding vu by blast
  show ?case
    using p1 p2 p3 p4 by auto
qed

section \<open>Evaluation at concrete inputs\<close>

lemma size_eval:
  "virtual_desktop_size_compute \<lparr>x = dx, y = dy, width = dw, height = dh\<rparr> \<lparr>x = ax, y = ay, width = aw, height = ah\<rparr> =
    (if dw = 0 \<and> dh = 0 then \<lparr>x = ax, y = ay, width = aw, height = ah\<rparr>
     else \<lparr>x = (if ax <s dx then ax else dx), y = (if ay <s dy then ay else dy),
           width = aw + dw - axis_delta dx dw ax aw, height = ah + dh - axis_delta dy dh ay ah\<rparr>)"
  by (auto simp: virtual_desktop_size_compute_def axis_delta_def Let_def)

lemma monitors_8: "replicate 8 m = [m, m, m, m, m, m, m, m]"
  by (simp add: numeral_eq_Suc)

lemmas layout_eval = wallpaper_update_layout_def state_init_def monitor_zero_def display_at_def
  display_info_update_1_def dmdo_to_orien_def virtual_desktop_position_reposition_def
  monitor_rect_def size_eval axis_delta_def is_axis_cover_point_def abs_i32_def
  word_sle_eq word_sless_alt monitors_8

section \<open>Rebasing\<close>

lemma reposition_active:
  "virtual_desktop_position_reposition vd ms = (None, vd', ms') \<Longrightarrow>
   m' \<in> set ms' \<Longrightarrow> active m' \<Longrightarrow>
   \<exists>m\<in>set ms. active m \<and> virt_pos_x m' = info_x m - x vd
                 \<and> virt_pos_y m' = info_y m - y vd"
  by (fastforce simp: virtual_desktop_position_reposition_def split: if_splits)

lemma reposition_ok:
  "rect_pos vd \<Longrightarrow> fst (virtual_desktop_position_reposition vd ms) = None"
  by (simp add: virtual_desktop_position_reposition_def rect_pos_def)

lemma sub_nonneg:
  fixes a b :: "32 word"
  assumes "sint b \<le> sint a" "- (2^29) \<le> sint b" "sint a \<le> 2^29"
  shows "0 \<le> sint (a - b)"
proof -
  define A B where "A = sint a" and "B = sint b"
  have b: "B \<le> A" "- 536870912 \<le> B" "A \<le> 536870912"
    using assms by (simp_all add: A_def B_def)
  have "sint (a - b) = sint a - sint b"
    by (rule sint_sub32) (use b in \<open>simp_all add: A_def [symmetric] B_def [symmetric]\<close>)
  then show ?thesis
    using b by (simp add: A_def B_def)
qed

section \<open>The orientations\<close>

lemma orient_cases: "(w :: 32 word) < 4 \<Longrightarrow> w = 0 \<or> w = 1 \<or> w = 2 \<or> w = 3"
proof -
  assume "w < 4"
  then have "unat w < 4" by (simp add: word_less_nat_alt)
  then have "unat w = 0 \<or> unat w = 1 \<or> unat w = 2 \<or> unat w = 3" by arith
  then have "unat w = unat (0::32 word) \<or> unat w = unat (1::32 word)
      \<or> unat w = unat (2::32 word) \<or> unat w = unat (3::32 word)"
    by simp
  then show ?thesis
    by (simp only: word_unat_eq_iff)
qed

lemma flip_orient_eval:
  "sint ((((0::32 word) * 90 + 180) mod 360) div 90) = 2"
  "sint ((((1::32 word) * 90 + 180) mod 360) div 90) = 3"
  "sint ((((2::32 word) * 90 + 180) mod 360) div 90) = 0"
  "sint ((((3::32 word) * 90 + 180) mod 360) div 90) = 1"
  by simp_all

lemma auto_rotate_empty:
  assumes o: "info_orientation m < 4"
    and all: "\<forall>i<4. wp_files m i = None \<or> wp_files m i = Some ''''"
    and ex: "\<exists>i<4. wp_files m i = Some ''''"
  shows "0 \<le> wallpaper_auto_rotate m
         \<and> wp_files m (nat (wallpaper_auto_rotate m)) = Some ''''"
proof -
  have f: "wp_files m 0 = None \<or> wp_files m 0 = Some ''''"
      "wp_files m 1 = None \<or> wp_files m 1 = Some ''''"
      "wp_files m 2 = None \<or> wp_files m 2 = Some ''''"
      "wp_files m 3 = None \<or> wp_files m 3 = Some ''''"
    using all by simp_all
  have "\<And>i::nat. i < 4 \<Longrightarrow> i = 0 \<or> i = 1 \<or> i = 2 \<or> i = 3" by arith
  then have e: "wp_files m 0 = Some '''' \<or> wp_files m 1 = Some ''''
      \<or> wp_files m 2 = Some '''' \<or> wp_files m 3 = Some ''''"
    using ex by metis
  from orient_cases [OF o] show ?thesis
    using f e
    by (elim disjE; simp add: wallpaper_auto_rotate_def NUM_MONITOR_ORIENTS_def flip_orient_eval)
qed

text \<open>
  The fallback never looks into a path: with every non-null path replaced by the empty
  one it makes the same choice.  And an empty path at the monitor's own orientation
  sends \<open>wallpaper_load\<close> to the fallback, as a null one does.
\<close>

lemma auto_rotate_ignores_contents:
  "wallpaper_auto_rotate (m\<lparr>wp_files := (\<lambda>i. map_option (\<lambda>p. []) (wp_files m i))\<rparr>)
     = wallpaper_auto_rotate m"
  by (simp add: wallpaper_auto_rotate_def Let_def)

lemma empty_own_path_takes_fallback:
  assumes "active m" "info_orientation m < 4" "wp_auto_rotate m"
    and "wp_files m (unat (info_orientation m)) = None
         \<or> wp_files m (unat (info_orientation m)) = Some []"
  shows "wallpaper_source_select m =
           (if wallpaper_auto_rotate m < 0 then Inl ENODATA
            else Inr (wp_files m (nat (wallpaper_auto_rotate m)), wallpaper_auto_rotate m))"
  using assms by (auto simp: wallpaper_source_select_def NUM_MONITOR_ORIENTS_def Let_def)

text \<open>What the fallback returns, case by case.\<close>

lemma flip_orient_flipped:
  "info_orientation m < 4 \<Longrightarrow>
   sint (((info_orientation m * 90 + 180) mod 360) div 90)
     = int (flipped_orientation (info_orientation m))"
  by (drule orient_cases) (auto simp: flipped_orientation_def)

lemma auto_rotate_flipped:
  assumes "info_orientation m < 4"
    and "wp_files m (flipped_orientation (info_orientation m)) \<noteq> None"
  shows "wallpaper_auto_rotate m = int (flipped_orientation (info_orientation m))"
  using assms
  by (simp add: wallpaper_auto_rotate_def flip_orient_flipped NUM_MONITOR_ORIENTS_def
      flipped_orientation_def Let_def)

lemma find_first:
  assumes "k < 4" "f k" "\<forall>j<k. \<not> f j"
  shows "find f [0, 1, 2, 3] = Some (k::nat)"
proof -
  have "k = 0 \<or> k = 1 \<or> k = 2 \<or> k = 3" using assms(1) by arith
  then show ?thesis
    using assms(2,3) by (elim disjE) simp_all
qed

lemma auto_rotate_scan:
  assumes "info_orientation m < 4"
    and "wp_files m (flipped_orientation (info_orientation m)) = None"
    and "k < 4" "wp_files m k \<noteq> None" "\<forall>j<k. wp_files m j = None"
  shows "wallpaper_auto_rotate m = int k"
proof -
  have "find (\<lambda>i. wp_files m i \<noteq> None) [0, 1, 2, 3] = Some k"
    by (rule find_first) (use assms in auto)
  then show ?thesis
    using assms(1,2)
    by (simp add: wallpaper_auto_rotate_def flip_orient_flipped NUM_MONITOR_ORIENTS_def
        flipped_orientation_def Let_def)
qed

lemma auto_rotate_none:
  assumes "info_orientation m < 4" and "\<forall>i<4. wp_files m i = None"
  shows "wallpaper_auto_rotate m = - 1"
  using assms
  by (simp add: wallpaper_auto_rotate_def flip_orient_flipped NUM_MONITOR_ORIENTS_def
      flipped_orientation_def Let_def)

text \<open>
  With auto-rotate off, an empty path at the monitor's own orientation ends
  \<open>wallpaper_load\<close> with \<open>-ENODATA\<close> before any fallback is looked at.
\<close>

lemma empty_own_path_without_auto_rotate:
  assumes "active m" "info_orientation m < 4" "\<not> wp_auto_rotate m"
    and "wp_files m (unat (info_orientation m)) = Some []"
  shows "wallpaper_load lib m = (Some ENODATA, None)"
proof -
  have "wallpaper_source_select m = Inl ENODATA"
    using assms by (auto simp: wallpaper_source_select_def NUM_MONITOR_ORIENTS_def Let_def)
  then show ?thesis
    by (simp add: wallpaper_load_def)
qed

section \<open>The union rule (claim C3)\<close>

text \<open>
  Claim C3.  \<open>virtual_desktop_size_compute\<close> implements the per-axis rule of the
  specification: a current rectangle whose width and height are both zero adopts the
  addend; otherwise, on each axis, the new extent is the sum of the two extents minus
  \<open>delta\<close>, where \<open>delta\<close> is the current extent when the addend's interval covers
  both ends of the current one, the distance from the addend's end to the current
  origin when it covers the origin only, the symmetric values when the current interval
  covers the addend's origin, and zero otherwise; the new origin is the smaller of the
  two origins.  Read as integers, the rectangle the code returns is the rectangle of
  the rule, for all origins between \<open>- 2^29\<close> and \<open>2^29\<close> and all extents up to \<open>2^29\<close>, where the
  32-bit arithmetic does not overflow.
\<close>

theorem size_compute_refines_union_rect:
  assumes "rect_bounded (2^29) desk" and "rect_bounded (2^29) append_r"
  shows "rect_abs (virtual_desktop_size_compute desk append_r)
           = union_rect (rect_abs desk) (rect_abs append_r)"
  using assms by (rule vdsc_abs)

text \<open>
  The theorem at the layout of scenario S3: a 1280 by 1024 monitor left of the primary
  1920 by 1080 one.
\<close>

theorem size_compute_refines_union_rect_witness:
  "rect_bounded (2^29) \<lparr>x = - 1280, y = 0, width = 1280, height = 1024\<rparr>
   \<and> rect_bounded (2^29) \<lparr>x = 0, y = 0, width = 1920, height = 1080\<rparr>
   \<and> rect_abs (virtual_desktop_size_compute
          \<lparr>x = - 1280, y = 0, width = 1280, height = 1024\<rparr>
          \<lparr>x = 0, y = 0, width = 1920, height = 1080\<rparr>)
       = \<lparr>ix = - 1280, iy = 0, iwidth = 3200, iheight = 1080\<rparr>"
proof -
  have d: "rect_bounded (2^29) \<lparr>x = - 1280, y = 0, width = 1280, height = 1024\<rparr>"
    by (simp add: rect_bounded_def)
  have a: "rect_bounded (2^29) \<lparr>x = 0, y = 0, width = 1920, height = 1080\<rparr>"
    by (simp add: rect_bounded_def)
  show ?thesis
    using d a size_compute_refines_union_rect [OF d a]
    by (simp add: union_rect_def union_delta_def axis_covers_point_def rect_abs_def)
qed

section \<open>Symmetry of the union (claim C9)\<close>

text \<open>
  Claim C9, as stated, fails.  The zeroed rectangle, which is the value the global
  \<open>virtual_desktop\<close> starts with, and a 5 by 5 rectangle at (10, 10) have no point in
  common.  With the zeroed rectangle as \<open>desk\<close> the function adopts the other one and
  returns it; with the arguments exchanged it takes the non-empty branch and returns
  the 5 by 5 rectangle moved to (0, 0).
\<close>

theorem union_empty_not_commutative:
  "rect_disjoint (rect_abs \<lparr>x = 0, y = 0, width = 0, height = 0\<rparr>)
                 (rect_abs \<lparr>x = 10, y = 10, width = 5, height = 5\<rparr>)
   \<and> virtual_desktop_size_compute \<lparr>x = 0, y = 0, width = 0, height = 0\<rparr>
                                    \<lparr>x = 10, y = 10, width = 5, height = 5\<rparr>
     \<noteq> virtual_desktop_size_compute \<lparr>x = 10, y = 10, width = 5, height = 5\<rparr>
                                    \<lparr>x = 0, y = 0, width = 0, height = 0\<rparr>"
  by (simp add: rect_disjoint_def rect_abs_def size_eval axis_delta_def
      is_axis_cover_point_def abs_i32_def word_sle_eq word_sless_alt)

text \<open>
  Claim C9, amended.  The union is the same in either argument order for every pair
  of rectangles neither of which is empty (width and height both zero), whether they
  are disjoint or not, for origins between \<open>- 2^29\<close> and \<open>2^29\<close> and extents up to
  \<open>2^29\<close>; and the union of any rectangle with itself is that rectangle.
\<close>

theorem union_commutes_nonempty_idempotent:
  "(rect_bounded (2^29) r \<and> rect_bounded (2^29) r' \<and> \<not> rect_empty r \<and> \<not> rect_empty r'
      \<longrightarrow> virtual_desktop_size_compute r r' = virtual_desktop_size_compute r' r)
   \<and> virtual_desktop_size_compute r r = r"
  by (simp add: vdsc_commute vdsc_idem)

text \<open>The theorem at the two monitors of scenario S2.\<close>

theorem union_commutes_nonempty_idempotent_witness:
  "rect_bounded (2^29) \<lparr>x = 0, y = 0, width = 1920, height = 1080\<rparr>
   \<and> rect_bounded (2^29) \<lparr>x = 1920, y = 0, width = 2560, height = 1440\<rparr>
   \<and> \<not> rect_empty \<lparr>x = 0, y = 0, width = 1920, height = 1080\<rparr>
   \<and> \<not> rect_empty \<lparr>x = 1920, y = 0, width = 2560, height = 1440\<rparr>
   \<and> virtual_desktop_size_compute \<lparr>x = 0, y = 0, width = 1920, height = 1080\<rparr>
                                    \<lparr>x = 1920, y = 0, width = 2560, height = 1440\<rparr>
     = virtual_desktop_size_compute \<lparr>x = 1920, y = 0, width = 2560, height = 1440\<rparr>
                                    \<lparr>x = 0, y = 0, width = 1920, height = 1080\<rparr>"
proof -
  have h: "rect_bounded (2^29) \<lparr>x = 0, y = 0, width = 1920, height = 1080\<rparr>"
      "rect_bounded (2^29) \<lparr>x = 1920, y = 0, width = 2560, height = 1440\<rparr>"
      "\<not> rect_empty \<lparr>x = 0, y = 0, width = 1920, height = 1080\<rparr>"
      "\<not> rect_empty \<lparr>x = 1920, y = 0, width = 2560, height = 1440\<rparr>"
    by (simp_all add: rect_bounded_def rect_empty_def)
  have c: "virtual_desktop_size_compute \<lparr>x = 0, y = 0, width = 1920, height = 1080\<rparr>
                                        \<lparr>x = 1920, y = 0, width = 2560, height = 1440\<rparr>
     = virtual_desktop_size_compute \<lparr>x = 1920, y = 0, width = 2560, height = 1440\<rparr>
                                    \<lparr>x = 0, y = 0, width = 1920, height = 1080\<rparr>"
    by (rule union_commutes_nonempty_idempotent [THEN conjunct1, rule_format])
       (intro conjI h)
  show ?thesis
    by (intro conjI h c)
qed

section \<open>Positions after rebasing (claims C8 and C2)\<close>

text \<open>
  Claim C8.  After the virtual desktop has been folded over the monitors and the
  monitors have been rebased, every active monitor has \<open>virt_pos.x \<ge> 0\<close> and
  \<open>virt_pos.y \<ge> 0\<close>.  This holds for every array of at most eight monitors with at
  least one active monitor, whose active monitors have positive extents and lie within
  \<open>2^24\<close>, and from every value of the global rectangle within \<open>2^24\<close>, the zeroed one
  of the first cycle and the one a previous cycle left alike; and the rebasing does
  not fail there.
\<close>

theorem rebased_positions_nonneg:
  assumes desk: "rect_bounded (2^24) desk"
    and mons: "\<forall>m\<in>set ms. active m \<longrightarrow> monitor_ok (2^24) m"
    and len: "length ms \<le> 8"
    and one: "\<exists>m\<in>set ms. active m"
  shows "\<exists>desk' ms'.
           virtual_desktop_position_reposition (virtual_desktop_update desk ms) ms
             = (None, desk', ms')
           \<and> (\<forall>m\<in>set ms'. active m \<longrightarrow>
                  0 \<le> sint (virt_pos_x m) \<and> 0 \<le> sint (virt_pos_y m))"
proof -
  define vd where "vd = virtual_desktop_update desk ms"
  have "int (length ms) \<le> 8" using len by simp
  then have "int (length ms) * 2^24 \<le> 8 * 2^24"
    by (rule mult_right_mono) simp
  then have bound: "2^24 + int (length ms) * 2^24 \<le> (2^29 :: int)"
    by simp
  note inv = vdu_inv [OF desk mons bound, folded vd_def]
  have bvd: "rect_bounded (2^29) vd"
    using inv bound by (auto intro: rect_bounded_mono)
  have below: "desk_below vd (monitor_rect m)" if "m \<in> set ms" "active m" for m
    using inv that by auto
  have pos: "rect_pos vd"
    using one below by (auto simp: desk_below_def)
  obtain desk' ms' where r: "virtual_desktop_position_reposition vd ms = (None, desk', ms')"
    using reposition_ok [OF pos, of ms]
    by (cases "virtual_desktop_position_reposition vd ms") auto
  have "0 \<le> sint (virt_pos_x m') \<and> 0 \<le> sint (virt_pos_y m')"
    if mem: "m' \<in> set ms'" and act: "active m'" for m'
  proof -
    obtain m where m: "m \<in> set ms" "active m" "virt_pos_x m' = info_x m - x vd"
        "virt_pos_y m' = info_y m - y vd"
      using reposition_active [OF r mem act] by blast
    have le: "sint (x vd) \<le> sint (info_x m)" "sint (y vd) \<le> sint (info_y m)"
      using below [OF m(1,2)] by (simp_all add: desk_below_def monitor_rect_def)
    have bm: "sint (info_x m) \<le> 2^24" "sint (info_y m) \<le> 2^24"
      using mons m(1,2) by (auto simp: monitor_ok_def rect_bounded_def monitor_rect_def)
    have bv: "- (2^29) \<le> sint (x vd)" "- (2^29) \<le> sint (y vd)"
      using bvd by (simp_all add: rect_bounded_def)
    have "0 \<le> sint (info_x m - x vd)"
      by (rule sub_nonneg [OF le(1) bv(1)]) (use bm in simp)
    moreover have "0 \<le> sint (info_y m - y vd)"
      by (rule sub_nonneg [OF le(2) bv(2)]) (use bm in simp)
    ultimately show ?thesis
      by (simp add: m)
  qed
  then show ?thesis
    using r unfolding vd_def by blast
qed

text \<open>
  The theorem at the layout of scenario S3, from the state at program start, read
  off at the two active monitors.
\<close>

theorem rebased_positions_nonneg_witness:
  "rect_bounded (2^24) \<lparr>x = 0, y = 0, width = 0, height = 0\<rparr>
   \<and> monitor_ok (2^24) (monitors_left_of_primary ! 0)
   \<and> monitor_ok (2^24) (monitors_left_of_primary ! 1)
   \<and> length (monitors_left_of_primary) \<le> 8
   \<and> fst (virtual_desktop_position_reposition
          (virtual_desktop_update \<lparr>x = 0, y = 0, width = 0, height = 0\<rparr>
             (monitors_left_of_primary))
          (monitors_left_of_primary)) = None
   \<and> 0 \<le> sint (virt_pos_x (snd (snd (virtual_desktop_position_reposition
          (virtual_desktop_update \<lparr>x = 0, y = 0, width = 0, height = 0\<rparr>
             (monitors_left_of_primary))
          (monitors_left_of_primary))) ! 0))
   \<and> 0 \<le> sint (virt_pos_x (snd (snd (virtual_desktop_position_reposition
          (virtual_desktop_update \<lparr>x = 0, y = 0, width = 0, height = 0\<rparr>
             (monitors_left_of_primary))
          (monitors_left_of_primary))) ! 1))"
proof -
  define ms where "ms = monitors_left_of_primary"
  define d0 where "d0 = \<lparr>x = 0, y = 0, width = 0, height = (0::32 word)\<rparr>"
  have ms: "ms = [display_info_update_1 (display_at (- 1280) 0 1280 1024 0) monitor_zero,
                  display_info_update_1 (display_at 0 0 1920 1080 0) monitor_zero,
                  monitor_zero, monitor_zero, monitor_zero, monitor_zero, monitor_zero,
                  monitor_zero]"
    by (simp add: ms_def monitors_left_of_primary_def left_of_primary_def monitors_8
        display_at_def)
  have h1: "rect_bounded (2^24) d0"
    by (simp add: rect_bounded_def d0_def)
  have h2: "\<forall>m\<in>set ms. active m \<longrightarrow> monitor_ok (2^24) m"
    by (simp add: ms monitor_ok_def rect_bounded_def rect_pos_def monitor_rect_def
        display_info_update_1_def display_at_def monitor_zero_def dmdo_to_orien_def)
  have h3: "length ms \<le> 8"
    by (simp add: ms)
  have a0: "active (ms ! 0)" and a1: "active (ms ! 1)"
    by (simp_all add: ms display_info_update_1_def display_at_def monitor_zero_def)
  have h4: "\<exists>m\<in>set ms. active m"
    using a0 by (auto simp: ms)
  have k: "monitor_ok (2^24) (ms ! 0)" "monitor_ok (2^24) (ms ! 1)"
    using h2 a0 a1 by (simp_all add: ms)
  obtain desk' ms' where
    r: "virtual_desktop_position_reposition (virtual_desktop_update d0 ms) ms = (None, desk', ms')"
    and p: "\<forall>m\<in>set ms'. active m \<longrightarrow> 0 \<le> sint (virt_pos_x m) \<and> 0 \<le> sint (virt_pos_y m)"
    using rebased_positions_nonneg [OF h1 h2 h3 h4] by blast
  have ms': "ms' = map (\<lambda>m. if \<not> active m then m
                     else m\<lparr>virt_pos_x := info_x m - x (virtual_desktop_update d0 ms),
                            virt_pos_y := info_y m - y (virtual_desktop_update d0 ms)\<rparr>) ms"
    using r by (auto simp: virtual_desktop_position_reposition_def split: if_splits)
  have len: "length ms' = 8"
    by (simp add: ms' ms)
  have b0: "active (ms' ! 0)" and b1: "active (ms' ! 1)"
    using a0 a1 by (simp_all add: ms' ms)
  have "ms' ! 0 \<in> set ms'" "ms' ! 1 \<in> set ms'"
    using len by simp_all
  then have c: "0 \<le> sint (virt_pos_x (ms' ! 0))" "0 \<le> sint (virt_pos_x (ms' ! 1))"
    using p b0 b1 by blast+
  have f: "fst (virtual_desktop_position_reposition (virtual_desktop_update d0 ms) ms) = None"
     "snd (snd (virtual_desktop_position_reposition (virtual_desktop_update d0 ms) ms)) = ms'"
    by (simp_all add: r)
  show ?thesis
    unfolding ms_def [symmetric] d0_def [symmetric] f
    by (intro conjI h1 k h3 c refl)
qed

text \<open>
  Claim C2 is right and the code breaks it.  Three 1920 by 1080 monitors stand in a
  row at \<open>x = 0\<close>, 1920 and 3840, and the platform enumerates the middle one last.
  When the right monitor is folded in, its interval is disjoint from the desktop's,
  \<open>delta\<close> stays 0 and the gap between them is not counted: the desktop ends 3840
  wide.  The right monitor is rebased to \<open>virt_pos.x = 3840\<close>, so its right edge is at
  5760, beyond the canvas.
\<close>

theorem middle_last_monitor_off_canvas:
  "(let (err, st) = wallpaper_update_layout three_in_a_row
                      (state_init (replicate 8 monitor_zero));
        m = st_monitors st ! 1
    in (err, active m, uint (width (st_virtual_desktop st)),
        sint (virt_pos_x m) + uint (info_width m)))
   = (None, True, 3840, 5760)"
  by (simp add: three_in_a_row_def layout_eval)

section \<open>The state a cycle leaves behind (claim C7)\<close>

text \<open>
  Claim C7 is right and the code breaks it.  \<open>wallpaper_update\<close> never resets the
  global \<open>virtual_desktop\<close>, so the fold of a cycle starts from the rectangle the
  previous cycle left, and the test for the first monitor no longer fires.  With the
  layout of scenario S3 the first cycle gives a canvas of 3200 by 1080 and the second
  cycle, on the same layout, one of 4480 by 1080.
\<close>

theorem second_cycle_grows_canvas:
  "(let st1 = snd (wallpaper_update_layout left_of_primary
                     (state_init (replicate 8 monitor_zero)));
        st2 = snd (wallpaper_update_layout left_of_primary st1)
    in (st_virtual_desktop st1, st_virtual_desktop st2))
   = (\<lparr>x = 0, y = 0, width = 3200, height = 1080\<rparr>,
      \<lparr>x = 0, y = 0, width = 4480, height = 1080\<rparr>)"
  by (simp add: left_of_primary_def layout_eval)

section \<open>The source and its rotation (claims C4 and C10)\<close>

text \<open>
  Claim C4, as stated, fails.  For the portrait monitor of scenario S4 the code
  chooses the \<open>landscape_0\<close> file, and the rotation it computes for it,
  \<open>(360 - (0 - 90)) mod 360\<close>, is not 270.
\<close>

theorem portrait_rotation_is_not_270:
  "wallpaper_source_select portrait_with_landscape_file = Inr (Some ''A'', 0)
   \<and> wallpaper_rotation 0 (info_orientation portrait_with_landscape_file) \<noteq> 270"
  by (simp add: portrait_with_landscape_file_def monitor_zero_def wallpaper_source_select_def
      wallpaper_auto_rotate_def wallpaper_rotation_def NUM_MONITOR_ORIENTS_def word_le_nat_alt)

text \<open>
  Claim C4, amended.  For an active monitor with orientation 90 degrees, auto-rotate
  on, and only the \<open>landscape_0\<close> file set, the code chooses that file (orientation 0)
  and rotates it by 90 degrees.
\<close>

theorem portrait_rotation_is_90:
  assumes "active m" and "info_orientation m = 1" and "wp_auto_rotate m"
    and "wp_files m 0 = Some A" and "wp_files m 1 = None"
    and "wp_files m 2 = None" and "wp_files m 3 = None"
  shows "wallpaper_source_select m = Inr (Some A, 0)
         \<and> wallpaper_rotation 0 (info_orientation m) = 90"
  using assms
  by (simp add: wallpaper_source_select_def wallpaper_auto_rotate_def wallpaper_rotation_def
      NUM_MONITOR_ORIENTS_def word_le_nat_alt)

text \<open>The theorem at the monitor of scenario S4.\<close>

theorem portrait_rotation_is_90_witness:
  "active portrait_with_landscape_file
   \<and> info_orientation portrait_with_landscape_file = 1
   \<and> wp_auto_rotate portrait_with_landscape_file
   \<and> wp_files portrait_with_landscape_file 0 = Some ''A''
   \<and> wp_files portrait_with_landscape_file 1 = None
   \<and> wp_files portrait_with_landscape_file 2 = None
   \<and> wp_files portrait_with_landscape_file 3 = None
   \<and> wallpaper_source_select portrait_with_landscape_file = Inr (Some ''A'', 0)
   \<and> wallpaper_rotation 0 (info_orientation portrait_with_landscape_file) = 90"
proof -
  have h: "active portrait_with_landscape_file"
      "info_orientation portrait_with_landscape_file = 1"
      "wp_auto_rotate portrait_with_landscape_file"
      "wp_files portrait_with_landscape_file 0 = Some ''A''"
      "wp_files portrait_with_landscape_file 1 = None"
      "wp_files portrait_with_landscape_file 2 = None"
      "wp_files portrait_with_landscape_file 3 = None"
    by (simp_all add: portrait_with_landscape_file_def)
  note c = portrait_rotation_is_90 [OF h]
  show ?thesis
    by (intro conjI h c [THEN conjunct1] c [THEN conjunct2])
qed

text \<open>
  Claim C10, as stated, fails.  A landscape monitor with auto-rotate off has the empty
  string as its \<open>landscape_0\<close> path and no other path, and the image library cannot
  read the empty path.  The lookup at the monitor's own orientation takes the empty
  path for an unset one, and since auto-rotate is off \<open>wallpaper_load\<close> returns
  \<open>-ENODATA\<close> there: the monitor is not resolved to any path and never reaches the
  image load.
\<close>

theorem empty_path_not_resolved_without_auto_rotate:
  "active empty_path_no_auto_rotate
   \<and> info_orientation empty_path_no_auto_rotate = 0
   \<and> wp_files empty_path_no_auto_rotate 0 = Some ''''
   \<and> wp_files empty_path_no_auto_rotate 1 = None
   \<and> wp_files empty_path_no_auto_rotate 2 = None
   \<and> wp_files empty_path_no_auto_rotate 3 = None
   \<and> MagickReadImage (magick_pass (\<lambda>s. None)) (Some '''') = None
   \<and> wallpaper_source_select empty_path_no_auto_rotate = Inl ENODATA
   \<and> wallpaper_load (magick_pass (\<lambda>s. None)) empty_path_no_auto_rotate
       = (Some ENODATA, None)"
  by (simp add: empty_path_no_auto_rotate_def monitor_zero_def magick_pass_def
      wallpaper_load_def wallpaper_source_select_def NUM_MONITOR_ORIENTS_def)

text \<open>
  Claim C10, amended.  For an active monitor with a known orientation whose path at
  its own orientation is null or empty, that path counts as unset: with auto-rotate
  off \<open>wallpaper_load\<close> returns \<open>-ENODATA\<close>, with auto-rotate on it goes to the
  fallback.  The fallback takes the path at the flipped orientation whenever it is not
  null, the empty string included; otherwise the first path in the order 0, 90, 180,
  270 degrees that is not null, the empty string included; and it returns \<open>-ENODATA\<close>
  only when all four are null.  Consequently, with auto-rotate on, a monitor whose
  paths are all null or empty and not all null is resolved to the empty path; and
  whenever the empty path has been chosen and the image library cannot read it,
  \<open>wallpaper_load\<close> returns \<open>-EIO\<close>, the load failure, not \<open>-ENODATA\<close>.
\<close>

theorem empty_path_in_fallback:
  assumes act: "active m" and o: "info_orientation m < 4"
    and own: "wp_files m (unat (info_orientation m)) = None
              \<or> wp_files m (unat (info_orientation m)) = Some ''''"
  shows "(\<not> wp_auto_rotate m \<longrightarrow> wallpaper_source_select m = Inl ENODATA)
       \<and> (wp_auto_rotate m
            \<and> wp_files m (flipped_orientation (info_orientation m)) \<noteq> None \<longrightarrow>
          wallpaper_source_select m
            = Inr (wp_files m (flipped_orientation (info_orientation m)),
                   int (flipped_orientation (info_orientation m))))
       \<and> (wp_auto_rotate m
            \<and> wp_files m (flipped_orientation (info_orientation m)) = None
            \<and> k < 4 \<and> wp_files m k \<noteq> None \<and> (\<forall>j<k. wp_files m j = None) \<longrightarrow>
          wallpaper_source_select m = Inr (wp_files m k, int k))
       \<and> (wp_auto_rotate m \<and> (\<forall>i<4. wp_files m i = None) \<longrightarrow>
          wallpaper_source_select m = Inl ENODATA)
       \<and> (wp_auto_rotate m
            \<and> (\<forall>i<4. wp_files m i = None \<or> wp_files m i = Some '''')
            \<and> (\<exists>i<4. wp_files m i = Some '''') \<longrightarrow>
          (\<exists>a. wallpaper_source_select m = Inr (Some '''', a)))
       \<and> ((\<exists>a. wallpaper_source_select m = Inr (Some '''', a))
            \<and> MagickReadImage lib (Some '''') = None \<longrightarrow>
          wallpaper_load lib m = (Some EIO, None))"
proof (intro conjI impI)
  assume "\<not> wp_auto_rotate m"
  then show "wallpaper_source_select m = Inl ENODATA"
    using act o own
    by (auto simp: wallpaper_source_select_def NUM_MONITOR_ORIENTS_def Let_def)
next
  assume a: "wp_auto_rotate m \<and> wp_files m (flipped_orientation (info_orientation m)) \<noteq> None"
  then have "wallpaper_auto_rotate m = int (flipped_orientation (info_orientation m))"
    using auto_rotate_flipped [OF o] by simp
  then show "wallpaper_source_select m
      = Inr (wp_files m (flipped_orientation (info_orientation m)),
             int (flipped_orientation (info_orientation m)))"
    using empty_own_path_takes_fallback [OF act o _ own] a by simp
next
  assume a: "wp_auto_rotate m \<and> wp_files m (flipped_orientation (info_orientation m)) = None
      \<and> k < 4 \<and> wp_files m k \<noteq> None \<and> (\<forall>j<k. wp_files m j = None)"
  then have "wallpaper_auto_rotate m = int k"
    using auto_rotate_scan [OF o, of k] by simp
  then show "wallpaper_source_select m = Inr (wp_files m k, int k)"
    using empty_own_path_takes_fallback [OF act o _ own] a by simp
next
  assume a: "wp_auto_rotate m \<and> (\<forall>i<4. wp_files m i = None)"
  then have "wallpaper_auto_rotate m = - 1"
    using auto_rotate_none [OF o] by simp
  then show "wallpaper_source_select m = Inl ENODATA"
    using empty_own_path_takes_fallback [OF act o _ own] a by simp
next
  assume a: "wp_auto_rotate m \<and> (\<forall>i<4. wp_files m i = None \<or> wp_files m i = Some '''')
      \<and> (\<exists>i<4. wp_files m i = Some '''')"
  then have "0 \<le> wallpaper_auto_rotate m"
      "wp_files m (nat (wallpaper_auto_rotate m)) = Some ''''"
    using auto_rotate_empty [OF o] by simp_all
  then have "wallpaper_source_select m = Inr (Some '''', wallpaper_auto_rotate m)"
    using empty_own_path_takes_fallback [OF act o _ own] a by simp
  then show "\<exists>a. wallpaper_source_select m = Inr (Some '''', a)" ..
next
  assume "(\<exists>a. wallpaper_source_select m = Inr (Some '''', a))
      \<and> MagickReadImage lib (Some '''') = None"
  then show "wallpaper_load lib m = (Some EIO, None)"
    by (auto simp: wallpaper_load_def)
qed

text \<open>
  The theorem at a landscape monitor with auto-rotate on, no \<open>landscape_0\<close> path, a
  readable \<open>portrait_90\<close> picture and the empty string as \<open>landscape_180\<close>: the
  flipped orientation wins with its empty path, and the load fails.
\<close>

theorem empty_path_in_fallback_witness:
  "active empty_path_flipped
   \<and> info_orientation empty_path_flipped < 4
   \<and> wp_files empty_path_flipped (unat (info_orientation empty_path_flipped)) = None
   \<and> wp_auto_rotate empty_path_flipped
   \<and> wp_files empty_path_flipped 1 = Some ''b.png''
   \<and> flipped_orientation (info_orientation empty_path_flipped) = 2
   \<and> wp_files empty_path_flipped 2 = Some ''''
   \<and> MagickReadImage (magick_pass (one_file ''b.png'')) (Some '''') = None
   \<and> wallpaper_source_select empty_path_flipped = Inr (Some '''', 2)
   \<and> wallpaper_load (magick_pass (one_file ''b.png'')) empty_path_flipped = (Some EIO, None)"
proof -
  define lib where "lib = magick_pass (one_file ''b.png'')"
  have h1: "active empty_path_flipped"
    and h2: "info_orientation empty_path_flipped < 4"
    and h3: "wp_files empty_path_flipped (unat (info_orientation empty_path_flipped)) = None"
    and h4: "wp_auto_rotate empty_path_flipped"
    and h5: "wp_files empty_path_flipped 1 = Some ''b.png''"
    and h6: "flipped_orientation (info_orientation empty_path_flipped) = 2"
    and h7: "wp_files empty_path_flipped 2 = Some ''''"
    by (simp_all add: empty_path_flipped_def monitor_zero_def flipped_orientation_def)
  have h8: "MagickReadImage lib (Some '''') = None"
    by (simp add: lib_def magick_pass_def one_file_def)
  note t = empty_path_in_fallback [OF h1 h2 disjI1 [OF h3], of 0 lib]
  have "wp_auto_rotate empty_path_flipped
      \<and> wp_files empty_path_flipped (flipped_orientation (info_orientation empty_path_flipped))
          \<noteq> None"
    using h4 h6 h7 by simp
  then have "wallpaper_source_select empty_path_flipped
      = Inr (wp_files empty_path_flipped
               (flipped_orientation (info_orientation empty_path_flipped)),
             int (flipped_orientation (info_orientation empty_path_flipped)))"
    by (rule t [THEN conjunct2, THEN conjunct1, rule_format])
  then have c1: "wallpaper_source_select empty_path_flipped = Inr (Some '''', 2)"
    by (simp add: h6 h7)
  then have "(\<exists>a. wallpaper_source_select empty_path_flipped = Inr (Some '''', a))
      \<and> MagickReadImage lib (Some '''') = None"
    using h8 by blast
  then have c2: "wallpaper_load lib empty_path_flipped = (Some EIO, None)"
    by (rule t [THEN conjunct2, THEN conjunct2, THEN conjunct2, THEN conjunct2,
               THEN conjunct2, rule_format])
  show ?thesis
    unfolding lib_def [symmetric] by (intro conjI h1 h2 h3 h4 h5 h6 h7 h8 c1 c2)
qed

section \<open>The size of a centred tile (claim C1)\<close>

text \<open>
  Claim C1 is right and the code breaks it for the style \<open>center\<close>.  The test that
  returns early when the picture already has the size of the monitor compares the
  monitor's height with the picture's width.  On a square monitor of 1920 by 1920 a
  picture of 1920 by 1080 passes that test and is returned as it is, whatever the
  image library does: the tile is 1920 by 1080, not 1920 by 1920.
\<close>

theorem center_returns_source_unchanged:
  "wallpaper_style_center_apply lib square_monitor \<lparr>image_width = 1920, image_height = 1080\<rparr>
     = (None, \<lparr>image_width = 1920, image_height = 1080\<rparr>)
   \<and> info_height square_monitor = 1920"
  by (simp add: wallpaper_style_center_apply_def square_monitor_def)

section \<open>Failures inside a cycle (claims C5 and C6)\<close>

text \<open>
  Claim C5 is right and the code breaks it.  Two monitors stand side by side, both
  with style \<open>stretch\<close>; the picture of the first can be read, the picture of the
  second cannot, and every other call passes.  The tile of the first monitor is
  composited and the canvas of 3840 by 1080 is written, but \<open>err\<close> still holds the
  \<open>-EIO\<close> of the second monitor when \<open>wallpaper_generate\<close> returns, and
  \<open>wallpaper_update\<close> returns without calling \<open>desktop_wallpaper_set\<close>.
\<close>

theorem failed_last_monitor_skips_install:
  "(let r = wallpaper_update (magick_pass (one_file ''a.png'')) side_by_side
              (state_init
                 ([configured 2 False (\<lambda>i. if i = 0 then Some ''a.png'' else None),
                   configured 2 False (\<lambda>i. if i = 0 then Some ''missing.png'' else None)]
                  @ replicate 6 monitor_zero))
    in (upd_err r, upd_generated r, upd_install_called r))
   = (Some EIO,
      \<lparr>gen_err = Some EIO, gen_pasted = [0],
       gen_written = Some \<lparr>image_width = 3840, image_height = 1080\<rparr>\<rparr>,
      False)"
  by code_simp

text \<open>
  With the two configurations exchanged the failure comes first, the next call of
  \<open>wallpaper_load\<close> overwrites \<open>err\<close> with 0, and the wallpaper is installed.
\<close>

lemma failed_first_monitor_installs:
  "(let r = wallpaper_update (magick_pass (one_file ''a.png'')) side_by_side
              (state_init
                 ([configured 2 False (\<lambda>i. if i = 0 then Some ''missing.png'' else None),
                   configured 2 False (\<lambda>i. if i = 0 then Some ''a.png'' else None)]
                  @ replicate 6 monitor_zero))
    in (upd_err r, upd_generated r, upd_install_called r))
   = (None,
      \<lparr>gen_err = None, gen_pasted = [1],
       gen_written = Some \<lparr>image_width = 3840, image_height = 1080\<rparr>\<rparr>,
      True)"
  by code_simp

text \<open>
  The same for every library, layout and number of monitors: when the call of
  \<open>wallpaper_load\<close> for the last active monitor returns an error, \<open>wallpaper_update\<close>
  does not reach \<open>desktop_wallpaper_set\<close>.
\<close>

lemma load_all_inactive:
  "\<forall>m\<in>set ms. \<not> active m \<Longrightarrow> fst (wallpaper_load_all lib err ms) = err"
  by (induction ms arbitrary: err) (auto simp: split_beta)

lemma load_all_last_active:
  assumes "active m" and "\<forall>m'\<in>set rest. \<not> active m'"
  shows "fst (wallpaper_load_all lib err (ms @ m # rest)) = fst (wallpaper_load lib m)"
  using assms
proof (induction ms arbitrary: err)
  case Nil
  then show ?case
    using load_all_inactive [of rest lib "fst (wallpaper_load lib m)"]
    by (simp add: split_beta)
next
  case (Cons a ms)
  then show ?case
    by (simp add: split_beta)
qed

lemma generate_err_stale:
  assumes "fst (wallpaper_load_all lib None (st_monitors st)) = Some e"
  shows "gen_err (wallpaper_generate lib st) \<noteq> None"
  using assms
  by (auto simp: wallpaper_generate_def Let_def split_beta split: option.splits prod.splits)

lemma failed_last_monitor_never_installs:
  assumes "st_monitors (snd (wallpaper_update_layout devs st)) = ms @ m # rest"
    and "active m" and "\<forall>m'\<in>set rest. \<not> active m'"
    and "fst (wallpaper_load lib m) = Some e"
  shows "\<not> upd_install_called (wallpaper_update lib devs st)"
proof -
  define st' where "st' = snd (wallpaper_update_layout devs st)"
  have "fst (wallpaper_load_all lib None (st_monitors st')) = Some e"
    using load_all_last_active [OF assms(2,3), of lib None ms] assms(1,4)
    by (simp add: st'_def)
  then have "gen_err (wallpaper_generate lib st') \<noteq> None"
    by (rule generate_err_stale)
  then show ?thesis
    by (auto simp: wallpaper_update_def st'_def split_beta Let_def split: option.splits)
qed

text \<open>
  Claim C6 is right and the code breaks it.  With no display enumerated and the
  state of program start, \<open>virtual_desktop_position_reposition\<close> returns \<open>-EINVAL\<close>,
  but \<open>wallpaper_update\<close> drops that value and goes on.  Where the image library
  extends the canvas to 0 by 0, the canvas is written and installed; where it refuses
  an empty size, nothing is written, \<open>wallpaper_generate\<close> still returns 0, and
  \<open>desktop_wallpaper_set\<close> is called all the same.
\<close>

theorem empty_layout_still_generates:
  "(let r = wallpaper_update (magick_pass (\<lambda>s. None)) []
              (state_init (replicate 8 monitor_zero))
    in (upd_layout_err r, upd_err r, gen_written (upd_generated r), upd_install_called r))
   = (Some EINVAL, None, Some \<lparr>image_width = 0, image_height = 0\<rparr>, True)
   \<and> (let r = wallpaper_update (magick_no_empty_extent (\<lambda>s. None)) []
                (state_init (replicate 8 monitor_zero))
      in (upd_layout_err r, upd_err r, gen_written (upd_generated r), upd_install_called r))
     = (Some EINVAL, None, None, True)"
  by code_simp

end
